theory Spec2Isabelle
  imports Main "HOL-Library.Word"
begin

section \<open>Machine types, fatal outcomes and sequencing\<close>

text \<open>
  The sources are \<^verbatim>\<open>src/opengl/opengl_device.cpp\<close> (the graphics device) and
  \<^verbatim>\<open>engine/dlib/src/test/testutil.cpp\<close> (the configuration helper).

  \<^verbatim>\<open>uint32_t\<close> values that take part in arithmetic (component counts, byte sizes,
  offsets, the stride) are 32-bit words, so \<open>+\<close> and \<open>*\<close> wrap as in the source.
  Loop counters and stream counts are never subject to wrapping arithmetic (a counter
  only runs up to its bound) and are natural numbers. A C \<^verbatim>\<open>int\<close> is an \<open>int\<close>
  together with the range check that C leaves to the programmer: leaving the range
  \<open>INT_MIN..INT_MAX\<close> is undefined behaviour and an outcome of its own.
\<close>

type_synonym u32 = "32 word"
type_synonym u8 = "8 word"
type_synonym u16 = "16 word"

text \<open>An address held by a \<^verbatim>\<open>void*\<close>; 0 is the null pointer.\<close>

type_synonym ptr = nat

text \<open>
  The ways a call does not return normally. \<^verbatim>\<open>assert(e)\<close> with \<open>e\<close> false stops the
  program (assertions are compiled in); \<^verbatim>\<open>CHECK_GL_ERROR\<close> prints the error code and
  then fails \<^verbatim>\<open>assert(0)\<close>; signed overflow and reading through a null pointer are
  undefined behaviour.
\<close>

datatype error = AssertionFailed | GLError int | SignedOverflow | NullDereference

definition and_then :: "error + 'a \<Rightarrow> ('a \<Rightarrow> error + 'b) \<Rightarrow> error + 'b" where
  "and_then m f = (case m of Inl e \<Rightarrow> Inl e | Inr a \<Rightarrow> f a)"

section \<open>Vertex declarations\<close>

text \<open>
  Modelled from the spec: \<^verbatim>\<open>enum Type\<close> is declared in \<^verbatim>\<open>graphics_device.h\<close>, which is
  not among the sources. Its seven enumerators are the ones \<^verbatim>\<open>GetTypeSize\<close> names;
  \<open>TYPE_UNRECOGNIZED v\<close> stands for any other value \<open>v\<close> that a variable of the
  enumeration type can hold.
\<close>

datatype Type =
    TYPE_BYTE
  | TYPE_UNSIGNED_BYTE
  | TYPE_SHORT
  | TYPE_UNSIGNED_SHORT
  | TYPE_INT
  | TYPE_UNSIGNED_INT
  | TYPE_FLOAT
  | TYPE_UNRECOGNIZED u32

text \<open>
  Modelled from the spec: \<^verbatim>\<open>struct VertexElement\<close> (\<^verbatim>\<open>graphics_device.h\<close>) and
  \<^verbatim>\<open>struct VertexDeclaration\<close> with its \<^verbatim>\<open>Stream\<close> (\<^verbatim>\<open>opengl_device.h\<close>) are not among
  the sources. The records have the fields the code reads and writes: a stream
  descriptor is (index, component count, native-format tag, usage tag, usage index,
  byte offset). A stream has every field of an element under the same name, so
  \<open>Stream\<close> extends \<open>VertexElement\<close> by \<open>m_Index\<close> and \<open>m_Offset\<close>.
  The array \<^verbatim>\<open>m_Streams\<close> is a function from indices; its length
  \<^verbatim>\<open>sizeof(vd->m_Streams) / sizeof(vd->m_Streams[0])\<close> is the parameter \<open>capacity\<close>
  of \<open>NewVertexDeclaration\<close>.
\<close>

record VertexElement =
  m_Size :: u32
  m_Usage :: u32
  m_Type :: Type
  m_UsageIndex :: u32

record Stream = VertexElement +
  m_Index :: nat
  m_Offset :: u32

record VertexDeclaration =
  m_Streams :: "nat \<Rightarrow> Stream"
  m_StreamCount :: nat
  m_Stride :: u32

text \<open>
  \<^verbatim>\<open>GetTypeSize\<close>: the \<^verbatim>\<open>switch\<close> sets \<open>size\<close> to 1, 2 or 4; the \<^verbatim>\<open>default\<close> branch
  is \<^verbatim>\<open>assert(0)\<close>.
\<close>

fun GetTypeSize :: "Type \<Rightarrow> error + u32" where
  "GetTypeSize TYPE_BYTE = Inr 1"
| "GetTypeSize TYPE_UNSIGNED_BYTE = Inr 1"
| "GetTypeSize TYPE_SHORT = Inr 2"
| "GetTypeSize TYPE_UNSIGNED_SHORT = Inr 2"
| "GetTypeSize TYPE_INT = Inr 4"
| "GetTypeSize TYPE_UNSIGNED_INT = Inr 4"
| "GetTypeSize TYPE_FLOAT = Inr 4"
| "GetTypeSize (TYPE_UNRECOGNIZED v) = Inl AssertionFailed"

text \<open>
  The body of the \<^verbatim>\<open>for\<close> loop of \<^verbatim>\<open>NewVertexDeclaration\<close>, from counter \<open>i\<close> on.
  \<open>element\<close> is the caller's array, read at \<open>i < count\<close> only.
\<close>

function NewVertexDeclaration_loop ::
  "(nat \<Rightarrow> VertexElement) \<Rightarrow> nat \<Rightarrow> nat \<Rightarrow> VertexDeclaration \<Rightarrow> error + VertexDeclaration"
where
  "NewVertexDeclaration_loop element count i vd =
     (if i < count then
        (case GetTypeSize (m_Type (element i)) of
           Inl e \<Rightarrow> Inl e
         | Inr type_size \<Rightarrow>
             NewVertexDeclaration_loop element count (Suc i)
               (vd\<lparr>m_Streams := (m_Streams vd)(i :=
                      \<lparr>m_Size = m_Size (element i),
                       m_Usage = m_Usage (element i),
                       m_Type = m_Type (element i),
                       m_UsageIndex = m_UsageIndex (element i),
                       m_Index = i,
                       m_Offset = m_Stride vd\<rparr>),
                   m_Stride := m_Stride vd + m_Size (element i) * type_size\<rparr>))
      else Inr vd)"
  by pat_completeness auto
termination
  by (relation "measure (\<lambda>(element, count, i, vd). count - i)") auto

declare NewVertexDeclaration_loop.simps [simp del]

text \<open>
  \<^verbatim>\<open>NewVertexDeclaration\<close>. \<open>fresh\<close> is the object \<^verbatim>\<open>new VertexDeclaration\<close> returns,
  whose fields hold indeterminate values until they are assigned.
\<close>

definition NewVertexDeclaration ::
  "nat \<Rightarrow> VertexDeclaration \<Rightarrow> (nat \<Rightarrow> VertexElement) \<Rightarrow> nat \<Rightarrow> error + VertexDeclaration"
where
  "NewVertexDeclaration capacity fresh element count =
     (let vd = fresh\<lparr>m_Stride := 0\<rparr> in
      if \<not> count < capacity then Inl AssertionFailed
      else and_then (NewVertexDeclaration_loop element count 0 vd)
             (\<lambda>vd. Inr (vd\<lparr>m_StreamCount := count\<rparr>)))"

text \<open>
  The bytes one stream takes in a vertex, as the loop adds them to the stride:
  component count times component byte size, in \<^verbatim>\<open>uint32_t\<close> arithmetic.
\<close>

definition stream_bytes :: "VertexElement \<Rightarrow> u32" where
  "stream_bytes e = (case GetTypeSize (m_Type e) of Inl _ \<Rightarrow> 0 | Inr type_size \<Rightarrow> m_Size e * type_size)"

definition recognized :: "Type \<Rightarrow> bool" where
  "recognized t = (case GetTypeSize t of Inl _ \<Rightarrow> False | Inr _ \<Rightarrow> True)"

text \<open>The stream \<^verbatim>\<open>NewVertexDeclaration\<close> writes for element \<open>i\<close> at a given offset.\<close>

definition declared_stream :: "(nat \<Rightarrow> VertexElement) \<Rightarrow> nat \<Rightarrow> u32 \<Rightarrow> Stream" where
  "declared_stream element i offset =
     \<lparr>m_Size = m_Size (element i), m_Usage = m_Usage (element i), m_Type = m_Type (element i),
      m_UsageIndex = m_UsageIndex (element i), m_Index = i, m_Offset = offset\<rparr>"

text \<open>The same byte counts as natural numbers, for reading a sum without wrap-around.\<close>

definition component_bytes :: "Type \<Rightarrow> nat" where
  "component_bytes t = (case GetTypeSize t of Inl _ \<Rightarrow> 0 | Inr type_size \<Rightarrow> unat type_size)"

definition stream_bytes_nat :: "VertexElement \<Rightarrow> nat" where
  "stream_bytes_nat e = unat (m_Size e) * component_bytes (m_Type e)"

text \<open>
  A two-stream description (three floats, then two unsigned shorts) and a freshly
  allocated declaration whose fields all hold the same garbage.
\<close>

definition example_elements :: "nat \<Rightarrow> VertexElement" where
  "example_elements i =
     (if i = 0 then \<lparr>m_Size = 3, m_Usage = 0, m_Type = TYPE_FLOAT, m_UsageIndex = 0\<rparr>
      else \<lparr>m_Size = 2, m_Usage = 1, m_Type = TYPE_UNSIGNED_SHORT, m_UsageIndex = 0\<rparr>)"

definition example_fresh :: "u32 \<Rightarrow> VertexDeclaration" where
  "example_fresh garbage =
     \<lparr>m_Streams = (\<lambda>_. \<lparr>m_Size = garbage, m_Usage = garbage, m_Type = TYPE_UNRECOGNIZED garbage,
                          m_UsageIndex = garbage, m_Index = unat garbage, m_Offset = garbage\<rparr>),
      m_StreamCount = unat garbage, m_Stride = garbage\<rparr>"

section \<open>The native graphics and windowing interface\<close>

text \<open>
  OpenGL and GLFW are outside the repository. The device layer only issues calls to
  them, so the model keeps the list of calls issued so far, the two pieces of native
  state the calls below determine (the buffer bound to each buffer target, the bound
  framebuffer), and the program's own global \<^verbatim>\<open>gdevice\<close>. What the native side
  answers (the error code of \<^verbatim>\<open>glGetError\<close>, whether a window could be opened, the
  address of a mapped buffer) is not determined by the program: it is a parameter
  \<open>drv\<close>, a function of the calls issued so far.
\<close>

datatype buffer_target = GL_ARRAY_BUFFER_ARB | GL_ELEMENT_ARRAY_BUFFER_ARB

text \<open>\<^verbatim>\<open>glext.h\<close> gives \<^verbatim>\<open>GL_ARRAY_BUFFER\<close> and \<^verbatim>\<open>GL_ARRAY_BUFFER_ARB\<close> the same value.\<close>

abbreviation GL_ARRAY_BUFFER :: buffer_target where
  "GL_ARRAY_BUFFER \<equiv> GL_ARRAY_BUFFER_ARB"

datatype program_target = GL_VERTEX_PROGRAM_ARB | GL_FRAGMENT_PROGRAM_ARB

datatype framebuffer_target = GL_FRAMEBUFFER_EXT

datatype string_name = GL_RENDERER | GL_VERSION | GL_VENDOR | GL_EXTENSIONS

datatype window_mode = GLFW_WINDOW | GLFW_FULLSCREEN

text \<open>The other tokens of the native interface that the texture and render target code passes.\<close>

datatype GLenum =
    GL_TEXTURE_2D
  | GL_GENERATE_MIPMAP
  | GL_TEXTURE_MIN_FILTER
  | GL_TEXTURE_MAG_FILTER
  | GL_LINEAR
  | GL_FALSE
  | GL_UNSIGNED_BYTE
  | GL_LUMINANCE
  | GL_RGB
  | GL_RGBA
  | GL_COMPRESSED_RGB_S3TC_DXT1_EXT
  | GL_COMPRESSED_RGBA_S3TC_DXT1_EXT
  | GL_COMPRESSED_RGBA_S3TC_DXT3_EXT
  | GL_COMPRESSED_RGBA_S3TC_DXT5_EXT
  | GL_RENDERBUFFER_EXT
  | GL_DEPTH_COMPONENT
  | GL_COLOR_ATTACHMENT0_EXT
  | GL_DEPTH_ATTACHMENT_EXT

text \<open>
  A \<^verbatim>\<open>float\<close> is only ever copied, never computed with: it is its 32-bit pattern.
  \<^verbatim>\<open>BufferUsage\<close> and \<^verbatim>\<open>BufferAccess\<close> (\<^verbatim>\<open>graphics_device.h\<close>) are passed through to the
  native call unchanged.
\<close>

type_synonym GLfloat = u32
type_synonym BufferUsage = u32
type_synonym BufferAccess = u32

datatype native_call =
    GlfwInit
  | GlfwOpenWindow u32 u32 int int int int int int window_mode
  | GlfwTerminate
  | GlfwSetWindowTitle string
  | GlfwSwapInterval int
  | GetString string_name
  | BindBufferARB buffer_target u32
  | BufferDataARB buffer_target u32 ptr BufferUsage
  | BufferSubDataARB buffer_target u32 u32 ptr
  | MapBufferARB buffer_target BufferAccess
  | UnmapBufferARB buffer_target
  | EnableVertexAttribArray nat
  | DisableVertexAttribArray nat
  | VertexAttribPointer nat u32 Type bool u32 ptr
  | ProgramLocalParameter4fARB program_target int GLfloat GLfloat GLfloat GLfloat
  | BindFramebuffer framebuffer_target u32
  | DeleteFramebuffers "u32 list"
  | DeleteRenderbuffers "u32 list"
  | DeleteTextures "u32 list"
  | GenTextures nat
  | BindTexture GLenum u32
  | TexParameteri GLenum GLenum GLenum
  | TexImage2D GLenum u16 int u16 u16 int GLenum GLenum ptr
  | CompressedTexImage2D GLenum u16 GLenum u16 u16 int u32 ptr
  | GenFramebuffers nat
  | GenRenderbuffers nat
  | BindRenderbuffer GLenum u32
  | RenderbufferStorage GLenum GLenum u32 u32
  | FramebufferTexture2D framebuffer_target GLenum GLenum u32 int
  | FramebufferRenderbuffer framebuffer_target GLenum GLenum u32

text \<open>
  Modelled from the spec: \<^verbatim>\<open>struct Device\<close> (\<^verbatim>\<open>opengl_device.h\<close>) and
  \<^verbatim>\<open>struct CreateDeviceParams\<close> (\<^verbatim>\<open>graphics_device.h\<close>) are not among the sources. The
  records have the fields \<^verbatim>\<open>NewDevice\<close> uses; both structs name the display size
  \<^verbatim>\<open>m_DisplayWidth\<close> and \<^verbatim>\<open>m_DisplayHeight\<close>, so the parameters extend the device.
\<close>

record Device =
  m_DisplayWidth :: u32
  m_DisplayHeight :: u32

record CreateDeviceParams = Device +
  m_AppTitle :: string
  m_Fullscreen :: bool
  m_PrintDeviceInfo :: bool

record state =
  gdevice :: Device
  native_calls :: "native_call list"
  buffer_binding :: "buffer_target \<Rightarrow> u32"
  framebuffer_binding :: u32

record driver =
  glGetError_result :: "native_call list \<Rightarrow> int"
  glfwOpenWindow_result :: "native_call list \<Rightarrow> int"
  glMapBufferARB_result :: "native_call list \<Rightarrow> ptr"
  glUnmapBufferARB_result :: "native_call list \<Rightarrow> u8"
  glGenTextures_result :: "native_call list \<Rightarrow> u32"
  glGenFramebuffers_result :: "native_call list \<Rightarrow> u32"
  glGenRenderbuffers_result :: "native_call list \<Rightarrow> u32"

definition issue :: "native_call \<Rightarrow> state \<Rightarrow> state" where
  "issue c s = s\<lparr>native_calls := native_calls s @ [c]\<rparr>"

definition glfwInit :: "state \<Rightarrow> state" where
  "glfwInit s = issue GlfwInit s"

definition glfwOpenWindow ::
  "driver \<Rightarrow> u32 \<Rightarrow> u32 \<Rightarrow> int \<Rightarrow> int \<Rightarrow> int \<Rightarrow> int \<Rightarrow> int \<Rightarrow> int \<Rightarrow> window_mode \<Rightarrow> state \<Rightarrow> int \<times> state"
where
  "glfwOpenWindow drv width height r g b a depth stencil mode s =
     (let s' = issue (GlfwOpenWindow width height r g b a depth stencil mode) s
      in (glfwOpenWindow_result drv (native_calls s'), s'))"

definition glfwTerminate :: "state \<Rightarrow> state" where
  "glfwTerminate s = issue GlfwTerminate s"

definition glfwSetWindowTitle :: "string \<Rightarrow> state \<Rightarrow> state" where
  "glfwSetWindowTitle title s = issue (GlfwSetWindowTitle title) s"

definition glfwSwapInterval :: "int \<Rightarrow> state \<Rightarrow> state" where
  "glfwSwapInterval interval s = issue (GlfwSwapInterval interval) s"

definition glGetString :: "string_name \<Rightarrow> state \<Rightarrow> state" where
  "glGetString name s = issue (GetString name) s"

definition glBindBufferARB :: "buffer_target \<Rightarrow> u32 \<Rightarrow> state \<Rightarrow> state" where
  "glBindBufferARB target buffer s =
     issue (BindBufferARB target buffer) (s\<lparr>buffer_binding := (buffer_binding s)(target := buffer)\<rparr>)"

definition glBufferDataARB :: "buffer_target \<Rightarrow> u32 \<Rightarrow> ptr \<Rightarrow> BufferUsage \<Rightarrow> state \<Rightarrow> state" where
  "glBufferDataARB target size' data usage s = issue (BufferDataARB target size' data usage) s"

definition glBufferSubDataARB :: "buffer_target \<Rightarrow> u32 \<Rightarrow> u32 \<Rightarrow> ptr \<Rightarrow> state \<Rightarrow> state" where
  "glBufferSubDataARB target offset size' data s = issue (BufferSubDataARB target offset size' data) s"

definition glMapBufferARB :: "driver \<Rightarrow> buffer_target \<Rightarrow> BufferAccess \<Rightarrow> state \<Rightarrow> ptr \<times> state" where
  "glMapBufferARB drv target access s =
     (let s' = issue (MapBufferARB target access) s
      in (glMapBufferARB_result drv (native_calls s'), s'))"

definition glUnmapBufferARB :: "driver \<Rightarrow> buffer_target \<Rightarrow> state \<Rightarrow> u8 \<times> state" where
  "glUnmapBufferARB drv target s =
     (let s' = issue (UnmapBufferARB target) s
      in (glUnmapBufferARB_result drv (native_calls s'), s'))"

definition GL_TRUE :: u8 where
  "GL_TRUE = 1"

definition glEnableVertexAttribArray :: "nat \<Rightarrow> state \<Rightarrow> state" where
  "glEnableVertexAttribArray index s = issue (EnableVertexAttribArray index) s"

definition glDisableVertexAttribArray :: "nat \<Rightarrow> state \<Rightarrow> state" where
  "glDisableVertexAttribArray index s = issue (DisableVertexAttribArray index) s"

definition glVertexAttribPointer :: "nat \<Rightarrow> u32 \<Rightarrow> Type \<Rightarrow> bool \<Rightarrow> u32 \<Rightarrow> ptr \<Rightarrow> state \<Rightarrow> state" where
  "glVertexAttribPointer index size' type normalized stride pointer s =
     issue (VertexAttribPointer index size' type normalized stride pointer) s"

definition glProgramLocalParameter4fARB ::
  "program_target \<Rightarrow> int \<Rightarrow> GLfloat \<Rightarrow> GLfloat \<Rightarrow> GLfloat \<Rightarrow> GLfloat \<Rightarrow> state \<Rightarrow> state"
where
  "glProgramLocalParameter4fARB target index x y z w s =
     issue (ProgramLocalParameter4fARB target index x y z w) s"

definition glBindFramebuffer :: "framebuffer_target \<Rightarrow> u32 \<Rightarrow> state \<Rightarrow> state" where
  "glBindFramebuffer target framebuffer s =
     issue (BindFramebuffer target framebuffer) (s\<lparr>framebuffer_binding := framebuffer\<rparr>)"

text \<open>Deleting the framebuffer that is bound makes the default framebuffer (0) the bound one.\<close>

definition glDeleteFramebuffers :: "u32 list \<Rightarrow> state \<Rightarrow> state" where
  "glDeleteFramebuffers framebuffers s =
     issue (DeleteFramebuffers framebuffers)
       (s\<lparr>framebuffer_binding :=
            (if framebuffer_binding s \<in> set framebuffers then 0 else framebuffer_binding s)\<rparr>)"

definition glDeleteRenderbuffers :: "u32 list \<Rightarrow> state \<Rightarrow> state" where
  "glDeleteRenderbuffers renderbuffers s = issue (DeleteRenderbuffers renderbuffers) s"

definition glDeleteTextures :: "u32 list \<Rightarrow> state \<Rightarrow> state" where
  "glDeleteTextures textures s = issue (DeleteTextures textures) s"

text \<open>The three calls that generate one name each yield the name the native side chose.\<close>

definition glGenTextures :: "driver \<Rightarrow> state \<Rightarrow> u32 \<times> state" where
  "glGenTextures drv s =
     (let s' = issue (GenTextures 1) s in (glGenTextures_result drv (native_calls s'), s'))"

definition glGenFramebuffers :: "driver \<Rightarrow> state \<Rightarrow> u32 \<times> state" where
  "glGenFramebuffers drv s =
     (let s' = issue (GenFramebuffers 1) s in (glGenFramebuffers_result drv (native_calls s'), s'))"

definition glGenRenderbuffers :: "driver \<Rightarrow> state \<Rightarrow> u32 \<times> state" where
  "glGenRenderbuffers drv s =
     (let s' = issue (GenRenderbuffers 1) s in (glGenRenderbuffers_result drv (native_calls s'), s'))"

definition glBindTexture :: "GLenum \<Rightarrow> u32 \<Rightarrow> state \<Rightarrow> state" where
  "glBindTexture target texture s = issue (BindTexture target texture) s"

definition glTexParameteri :: "GLenum \<Rightarrow> GLenum \<Rightarrow> GLenum \<Rightarrow> state \<Rightarrow> state" where
  "glTexParameteri target pname param s = issue (TexParameteri target pname param) s"

definition glTexImage2D ::
  "GLenum \<Rightarrow> u16 \<Rightarrow> int \<Rightarrow> u16 \<Rightarrow> u16 \<Rightarrow> int \<Rightarrow> GLenum \<Rightarrow> GLenum \<Rightarrow> ptr \<Rightarrow> state \<Rightarrow> state"
where
  "glTexImage2D target level internal_format width height border format type pixels s =
     issue (TexImage2D target level internal_format width height border format type pixels) s"

definition glCompressedTexImage2D ::
  "GLenum \<Rightarrow> u16 \<Rightarrow> GLenum \<Rightarrow> u16 \<Rightarrow> u16 \<Rightarrow> int \<Rightarrow> u32 \<Rightarrow> ptr \<Rightarrow> state \<Rightarrow> state"
where
  "glCompressedTexImage2D target level internal_format width height border image_size data s =
     issue (CompressedTexImage2D target level internal_format width height border image_size data) s"

definition glBindRenderbuffer :: "GLenum \<Rightarrow> u32 \<Rightarrow> state \<Rightarrow> state" where
  "glBindRenderbuffer target renderbuffer s = issue (BindRenderbuffer target renderbuffer) s"

definition glRenderbufferStorage :: "GLenum \<Rightarrow> GLenum \<Rightarrow> u32 \<Rightarrow> u32 \<Rightarrow> state \<Rightarrow> state" where
  "glRenderbufferStorage target internal_format width height s =
     issue (RenderbufferStorage target internal_format width height) s"

definition glFramebufferTexture2D ::
  "framebuffer_target \<Rightarrow> GLenum \<Rightarrow> GLenum \<Rightarrow> u32 \<Rightarrow> int \<Rightarrow> state \<Rightarrow> state"
where
  "glFramebufferTexture2D target attachment textarget texture level s =
     issue (FramebufferTexture2D target attachment textarget texture level) s"

definition glFramebufferRenderbuffer ::
  "framebuffer_target \<Rightarrow> GLenum \<Rightarrow> GLenum \<Rightarrow> u32 \<Rightarrow> state \<Rightarrow> state"
where
  "glFramebufferRenderbuffer target attachment renderbuffertarget renderbuffer s =
     issue (FramebufferRenderbuffer target attachment renderbuffertarget renderbuffer) s"

text \<open>
  The macro \<^verbatim>\<open>CHECK_GL_ERROR\<close>: \<^verbatim>\<open>GLint err = glGetError(); if (err != 0) { printf(...); assert(0); }\<close>.
\<close>

definition CHECK_GL_ERROR :: "driver \<Rightarrow> state \<Rightarrow> error + state" where
  "CHECK_GL_ERROR drv s =
     (let err = glGetError_result drv (native_calls s)
      in if err \<noteq> 0 then Inl (GLError err) else Inr s)"

text \<open>A \<^verbatim>\<open>for (i = ...; i < n; i++)\<close> loop whose body may stop the program.\<close>

function for_loop :: "nat \<Rightarrow> nat \<Rightarrow> (nat \<Rightarrow> 's \<Rightarrow> error + 's) \<Rightarrow> 's \<Rightarrow> error + 's" where
  "for_loop i n body s =
     (if i < n then
        (case body i s of Inl e \<Rightarrow> Inl e | Inr s' \<Rightarrow> for_loop (Suc i) n body s')
      else Inr s)"
  by pat_completeness auto
termination
  by (relation "measure (\<lambda>(i, n, body, s). n - i)") auto

declare for_loop.simps [simp del]

section \<open>Device creation\<close>

text \<open>
  \<^verbatim>\<open>NewDevice\<close> returns 0 or the address of the global \<^verbatim>\<open>gdevice\<close>. A pointer argument
  that the code tests against null is an \<open>option\<close>, \<open>None\<close> being null. The block
  under \<^verbatim>\<open>#if defined (_WIN32)\<close>, which loads the extension entry points, belongs to the
  Windows build only; the text printed with \<^verbatim>\<open>printf\<close> is not kept.
\<close>

datatype HDevice = HDevice_null | HDevice_gdevice

definition NewDevice :: "driver \<Rightarrow> CreateDeviceParams option \<Rightarrow> state \<Rightarrow> error + (HDevice \<times> state)" where
  "NewDevice drv params s0 =
     (case params of
        None \<Rightarrow> Inl AssertionFailed
      | Some p \<Rightarrow>
          (let s1 = glfwInit s0;
               (opened, s2) = glfwOpenWindow drv (m_DisplayWidth p) (m_DisplayHeight p) 8 8 8 8 32 0 GLFW_WINDOW s1
           in if opened = 0 then Inr (HDevice_null, glfwTerminate s2)
              else
                and_then (CHECK_GL_ERROR drv (glfwSwapInterval 1 (glfwSetWindowTitle (m_AppTitle p) s2)))
                  (\<lambda>s3.
                    let s4 = s3\<lparr>gdevice := (gdevice s3)\<lparr>m_DisplayWidth := m_DisplayWidth p\<rparr>\<rparr>;
                        s5 = s4\<lparr>gdevice := (gdevice s4)\<lparr>m_DisplayHeight := m_DisplayHeight p\<rparr>\<rparr>;
                        s6 = (if m_PrintDeviceInfo p
                              then glGetString GL_EXTENSIONS
                                     (glGetString GL_VENDOR (glGetString GL_VERSION (glGetString GL_RENDERER s5)))
                              else s5)
                    in Inr (HDevice_gdevice, s6))))"

definition GetWindowWidth :: "state \<Rightarrow> u32" where
  "GetWindowWidth s = m_DisplayWidth (gdevice s)"

definition GetWindowHeight :: "state \<Rightarrow> u32" where
  "GetWindowHeight s = m_DisplayHeight (gdevice s)"

text \<open>
  The value and state \<^verbatim>\<open>glfwOpenWindow\<close> yields when \<^verbatim>\<open>NewDevice\<close> calls it with the
  parameters \<open>p\<close> in state \<open>s\<close>, and the parameters of an example.
\<close>

definition NewDevice_open_window :: "driver \<Rightarrow> CreateDeviceParams \<Rightarrow> state \<Rightarrow> int \<times> state" where
  "NewDevice_open_window drv p s =
     glfwOpenWindow drv (m_DisplayWidth p) (m_DisplayHeight p) 8 8 8 8 32 0 GLFW_WINDOW (glfwInit s)"

definition example_params :: CreateDeviceParams where
  "example_params =
     \<lparr>m_DisplayWidth = 960, m_DisplayHeight = 540, m_AppTitle = ''app'', m_Fullscreen = False,
      m_PrintDeviceInfo = True\<rparr>"

section \<open>Vertex and index buffers\<close>

text \<open>
  A buffer handle (\<^verbatim>\<open>HVertexBuffer\<close>, \<^verbatim>\<open>HIndexBuffer\<close>) is the native buffer name, a
  \<^verbatim>\<open>uint32_t\<close>. The profiling macro \<^verbatim>\<open>DM_PROFILE\<close> has no part in the model.
\<close>

definition SetVertexBufferData :: "driver \<Rightarrow> u32 \<Rightarrow> u32 \<Rightarrow> ptr \<Rightarrow> BufferUsage \<Rightarrow> state \<Rightarrow> error + state" where
  "SetVertexBufferData drv buffer size' data buffer_usage s0 =
     and_then (CHECK_GL_ERROR drv (glBindBufferARB GL_ARRAY_BUFFER_ARB buffer s0)) (\<lambda>s1.
     and_then (CHECK_GL_ERROR drv (glBufferDataARB GL_ARRAY_BUFFER_ARB size' data buffer_usage s1)) (\<lambda>s2.
     CHECK_GL_ERROR drv (glBindBufferARB GL_ARRAY_BUFFER_ARB 0 s2)))"

definition SetVertexBufferSubData :: "driver \<Rightarrow> u32 \<Rightarrow> u32 \<Rightarrow> u32 \<Rightarrow> ptr \<Rightarrow> state \<Rightarrow> error + state" where
  "SetVertexBufferSubData drv buffer offset size' data s0 =
     and_then (CHECK_GL_ERROR drv (glBindBufferARB GL_ARRAY_BUFFER_ARB buffer s0)) (\<lambda>s1.
     and_then (CHECK_GL_ERROR drv (glBufferSubDataARB GL_ARRAY_BUFFER_ARB offset size' data s1)) (\<lambda>s2.
     CHECK_GL_ERROR drv (glBindBufferARB GL_ARRAY_BUFFER_ARB 0 s2)))"

definition MapVertexBuffer :: "driver \<Rightarrow> u32 \<Rightarrow> BufferAccess \<Rightarrow> state \<Rightarrow> error + (ptr \<times> state)" where
  "MapVertexBuffer drv buffer access s0 =
     and_then (CHECK_GL_ERROR drv (glBindBufferARB GL_ARRAY_BUFFER_ARB buffer s0)) (\<lambda>s1.
     let (result, s2) = glMapBufferARB drv GL_ARRAY_BUFFER_ARB access s1 in
     and_then (CHECK_GL_ERROR drv s2) (\<lambda>s3.
     and_then (CHECK_GL_ERROR drv (glBindBufferARB GL_ARRAY_BUFFER_ARB 0 s3)) (\<lambda>s4.
     Inr (result, s4))))"

definition UnmapVertexBuffer :: "driver \<Rightarrow> u32 \<Rightarrow> state \<Rightarrow> error + (bool \<times> state)" where
  "UnmapVertexBuffer drv buffer s0 =
     and_then (CHECK_GL_ERROR drv (glBindBufferARB GL_ARRAY_BUFFER_ARB buffer s0)) (\<lambda>s1.
     let (unmapped, s2) = glUnmapBufferARB drv GL_ARRAY_BUFFER_ARB s1;
         result = (unmapped = GL_TRUE) in
     and_then (CHECK_GL_ERROR drv s2) (\<lambda>s3.
     and_then (CHECK_GL_ERROR drv (glBindBufferARB GL_ARRAY_BUFFER_ARB 0 s3)) (\<lambda>s4.
     Inr (result, s4))))"

definition SetIndexBufferData :: "driver \<Rightarrow> u32 \<Rightarrow> u32 \<Rightarrow> ptr \<Rightarrow> BufferUsage \<Rightarrow> state \<Rightarrow> error + state" where
  "SetIndexBufferData drv buffer size' data buffer_usage s0 =
     and_then (CHECK_GL_ERROR drv (glBindBufferARB GL_ELEMENT_ARRAY_BUFFER_ARB buffer s0)) (\<lambda>s1.
     and_then (CHECK_GL_ERROR drv (glBufferDataARB GL_ELEMENT_ARRAY_BUFFER_ARB size' data buffer_usage s1)) (\<lambda>s2.
     CHECK_GL_ERROR drv (glBindBufferARB GL_ELEMENT_ARRAY_BUFFER_ARB 0 s2)))"

definition SetIndexBufferSubData :: "driver \<Rightarrow> u32 \<Rightarrow> u32 \<Rightarrow> u32 \<Rightarrow> ptr \<Rightarrow> state \<Rightarrow> error + state" where
  "SetIndexBufferSubData drv buffer offset size' data s0 =
     and_then (CHECK_GL_ERROR drv (glBindBufferARB GL_ELEMENT_ARRAY_BUFFER_ARB buffer s0)) (\<lambda>s1.
     and_then (CHECK_GL_ERROR drv (glBufferSubDataARB GL_ELEMENT_ARRAY_BUFFER_ARB offset size' data s1)) (\<lambda>s2.
     CHECK_GL_ERROR drv (glBindBufferARB GL_ELEMENT_ARRAY_BUFFER_ARB 0 s2)))"

definition MapIndexBuffer :: "driver \<Rightarrow> u32 \<Rightarrow> BufferAccess \<Rightarrow> state \<Rightarrow> error + (ptr \<times> state)" where
  "MapIndexBuffer drv buffer access s0 =
     and_then (CHECK_GL_ERROR drv (glBindBufferARB GL_ELEMENT_ARRAY_BUFFER_ARB buffer s0)) (\<lambda>s1.
     let (result, s2) = glMapBufferARB drv GL_ELEMENT_ARRAY_BUFFER_ARB access s1 in
     and_then (CHECK_GL_ERROR drv s2) (\<lambda>s3.
     and_then (CHECK_GL_ERROR drv (glBindBufferARB GL_ELEMENT_ARRAY_BUFFER_ARB 0 s3)) (\<lambda>s4.
     Inr (result, s4))))"

definition UnmapIndexBuffer :: "driver \<Rightarrow> u32 \<Rightarrow> state \<Rightarrow> error + (bool \<times> state)" where
  "UnmapIndexBuffer drv buffer s0 =
     and_then (CHECK_GL_ERROR drv (glBindBufferARB GL_ELEMENT_ARRAY_BUFFER_ARB buffer s0)) (\<lambda>s1.
     let (unmapped, s2) = glUnmapBufferARB drv GL_ELEMENT_ARRAY_BUFFER_ARB s1;
         result = (unmapped = GL_TRUE) in
     and_then (CHECK_GL_ERROR drv s2) (\<lambda>s3.
     and_then (CHECK_GL_ERROR drv (glBindBufferARB GL_ELEMENT_ARRAY_BUFFER_ARB 0 s3)) (\<lambda>s4.
     Inr (result, s4))))"

text \<open>
  The state after the calls \<open>new\<close> were issued, the last of them binding 0 to
  \<open>target\<close>, and nothing else changed.
\<close>

definition rebound :: "buffer_target \<Rightarrow> native_call list \<Rightarrow> state \<Rightarrow> state" where
  "rebound target new s =
     s\<lparr>native_calls := native_calls s @ new, buffer_binding := (buffer_binding s)(target := 0)\<rparr>"

section \<open>Enabling and disabling a vertex declaration\<close>

text \<open>
  \<^verbatim>\<open>HContext\<close> is a pointer to the global \<^verbatim>\<open>gcontext\<close>; \<^verbatim>\<open>HVertexDeclaration\<close> is a
  pointer to a declaration. \<^verbatim>\<open>BUFFER_OFFSET(i)\<close> is \<^verbatim>\<open>((char*)0x0 + (i))\<close>.
\<close>

datatype Context = gcontext

definition GetContext :: "Context option" where
  "GetContext = Some gcontext"

definition BUFFER_OFFSET :: "u32 \<Rightarrow> ptr" where
  "BUFFER_OFFSET i = 0 + unat i"

definition EnableVertexDeclaration ::
  "driver \<Rightarrow> Context option \<Rightarrow> VertexDeclaration option \<Rightarrow> u32 \<Rightarrow> state \<Rightarrow> error + state"
where
  "EnableVertexDeclaration drv context vertex_declaration vertex_buffer s0 =
     (if context = None then Inl AssertionFailed
      else if vertex_buffer = 0 then Inl AssertionFailed
      else case vertex_declaration of
        None \<Rightarrow> Inl AssertionFailed
      | Some vd \<Rightarrow>
          and_then (CHECK_GL_ERROR drv (glBindBufferARB GL_ARRAY_BUFFER vertex_buffer s0)) (\<lambda>s1.
          for_loop 0 (m_StreamCount vd)
            (\<lambda>i s.
               and_then (CHECK_GL_ERROR drv (glEnableVertexAttribArray (m_Index (m_Streams vd i)) s)) (\<lambda>s'.
               CHECK_GL_ERROR drv
                 (glVertexAttribPointer
                    (m_Index (m_Streams vd i))
                    (m_Size (m_Streams vd i))
                    (m_Type (m_Streams vd i))
                    False
                    (m_Stride vd)
                    (BUFFER_OFFSET (m_Offset (m_Streams vd i))) s')))
            s1))"

definition DisableVertexDeclaration ::
  "driver \<Rightarrow> Context option \<Rightarrow> VertexDeclaration option \<Rightarrow> state \<Rightarrow> error + state"
where
  "DisableVertexDeclaration drv context vertex_declaration s0 =
     (if context = None then Inl AssertionFailed
      else case vertex_declaration of
        None \<Rightarrow> Inl AssertionFailed
      | Some vd \<Rightarrow>
          and_then
            (for_loop 0 (m_StreamCount vd)
               (\<lambda>i s. CHECK_GL_ERROR drv (glDisableVertexAttribArray i s))
               s0) (\<lambda>s1.
          and_then (CHECK_GL_ERROR drv (glBindBufferARB GL_ARRAY_BUFFER_ARB 0 s1)) (\<lambda>s2.
          CHECK_GL_ERROR drv (glBindBufferARB GL_ELEMENT_ARRAY_BUFFER_ARB 0 s2))))"

text \<open>The kinds of call the two functions are counted by.\<close>

fun is_enable_attribute :: "native_call \<Rightarrow> bool" where
  "is_enable_attribute (EnableVertexAttribArray index) = True"
| "is_enable_attribute _ = False"

fun is_disable_attribute :: "native_call \<Rightarrow> bool" where
  "is_disable_attribute (DisableVertexAttribArray index) = True"
| "is_disable_attribute _ = False"

fun is_set_pointer :: "native_call \<Rightarrow> bool" where
  "is_set_pointer (VertexAttribPointer index size' type normalized stride pointer) = True"
| "is_set_pointer _ = False"

text \<open>The calls issued from state \<open>s\<close> on, in a later state \<open>s'\<close>.\<close>

definition issued_since :: "state \<Rightarrow> state \<Rightarrow> native_call list" where
  "issued_since s s' = drop (length (native_calls s)) (native_calls s')"

text \<open>What enabling issues for the stream at \<open>i\<close>.\<close>

definition enable_calls :: "VertexDeclaration \<Rightarrow> nat \<Rightarrow> native_call list" where
  "enable_calls vd i =
     [EnableVertexAttribArray (m_Index (m_Streams vd i)),
      VertexAttribPointer (m_Index (m_Streams vd i)) (m_Size (m_Streams vd i)) (m_Type (m_Streams vd i))
        False (m_Stride vd) (BUFFER_OFFSET (m_Offset (m_Streams vd i)))]"

section \<open>Program constants\<close>

text \<open>
  \<^verbatim>\<open>base_register\<close>, \<^verbatim>\<open>num_vectors\<close>, \<^verbatim>\<open>i\<close> and \<^verbatim>\<open>reg\<close> are C \<^verbatim>\<open>int\<close>s. An addition
  whose result is not an \<^verbatim>\<open>int\<close> is undefined behaviour.
\<close>

definition INT_MAX :: int where
  "INT_MAX = 2147483647"

definition INT_MIN :: int where
  "INT_MIN = - 2147483648"

definition int_add :: "int \<Rightarrow> int \<Rightarrow> error + int" where
  "int_add a b = (if INT_MIN \<le> a + b \<and> a + b \<le> INT_MAX then Inr (a + b) else Inl SignedOverflow)"

text \<open>
  \<^verbatim>\<open>Vector4\<close> of the vectormath library: four \<^verbatim>\<open>float\<close>s \<^verbatim>\<open>mX\<close>, \<^verbatim>\<open>mY\<close>, \<^verbatim>\<open>mZ\<close>, \<^verbatim>\<open>mW\<close>, in
  this order. \<open>float_view data\<close> is the array \<^verbatim>\<open>(const float*)data\<close>: float \<open>4 * i + k\<close> is
  component \<open>k\<close> of vector \<open>i\<close>. The loop reads it at non-negative indices only.
\<close>

record Vector4 =
  mX :: GLfloat
  mY :: GLfloat
  mZ :: GLfloat
  mW :: GLfloat

definition float_view :: "(nat \<Rightarrow> Vector4) \<Rightarrow> int \<Rightarrow> GLfloat" where
  "float_view data k =
     (let v = data (nat (k div 4))
      in if k mod 4 = 0 then mX v else if k mod 4 = 1 then mY v else if k mod 4 = 2 then mZ v else mW v)"

text \<open>
  The loop \<^verbatim>\<open>for (int i=0; i<num_vectors; i++, reg+=4)\<close> of \<^verbatim>\<open>SetProgramConstantBlock\<close>,
  from the values \<open>i\<close> and \<open>reg\<close> on.
\<close>

function SetProgramConstantBlock_loop ::
  "driver \<Rightarrow> program_target \<Rightarrow> (int \<Rightarrow> GLfloat) \<Rightarrow> int \<Rightarrow> int \<Rightarrow> int \<Rightarrow> int \<Rightarrow> state \<Rightarrow> error + state"
where
  "SetProgramConstantBlock_loop drv type f base_register num_vectors i reg s =
     (if i < num_vectors then
        (case int_add base_register i of Inl e \<Rightarrow> Inl e | Inr index \<Rightarrow>
        (case int_add 0 reg of Inl e \<Rightarrow> Inl e | Inr k0 \<Rightarrow>
        (case int_add 1 reg of Inl e \<Rightarrow> Inl e | Inr k1 \<Rightarrow>
        (case int_add 2 reg of Inl e \<Rightarrow> Inl e | Inr k2 \<Rightarrow>
        (case int_add 3 reg of Inl e \<Rightarrow> Inl e | Inr k3 \<Rightarrow>
        (case CHECK_GL_ERROR drv
                (glProgramLocalParameter4fARB type index (f k0) (f k1) (f k2) (f k3) s) of
           Inl e \<Rightarrow> Inl e | Inr s' \<Rightarrow>
        (case int_add i 1 of Inl e \<Rightarrow> Inl e | Inr i' \<Rightarrow>
        (case int_add reg 4 of Inl e \<Rightarrow> Inl e | Inr reg' \<Rightarrow>
           SetProgramConstantBlock_loop drv type f base_register num_vectors i' reg' s'))))))))
      else Inr s)"
  by pat_completeness auto
termination
  by (relation "measure (\<lambda>(drv, type, f, base_register, num_vectors, i, reg, s). nat (num_vectors - i))")
    (auto simp: int_add_def split: if_splits)

declare SetProgramConstantBlock_loop.simps [simp del]

definition SetProgramConstantBlock ::
  "driver \<Rightarrow> Context option \<Rightarrow> program_target \<Rightarrow> (nat \<Rightarrow> Vector4) option \<Rightarrow> int \<Rightarrow> int \<Rightarrow> state
     \<Rightarrow> error + state"
where
  "SetProgramConstantBlock drv context type data base_register num_vectors s =
     (if context = None then Inl AssertionFailed
      else case data of
        None \<Rightarrow> Inl AssertionFailed
      | Some vectors \<Rightarrow>
          if \<not> base_register \<ge> 0 then Inl AssertionFailed
          else if \<not> num_vectors \<ge> 0 then Inl AssertionFailed
          else SetProgramConstantBlock_loop drv type (float_view vectors) base_register num_vectors 0 0 s)"

definition SetFragmentConstant ::
  "driver \<Rightarrow> Context option \<Rightarrow> (nat \<Rightarrow> Vector4) option \<Rightarrow> int \<Rightarrow> state \<Rightarrow> error + state"
where
  "SetFragmentConstant drv context data base_register s =
     (if context = None then Inl AssertionFailed
      else and_then (SetProgramConstantBlock drv context GL_FRAGMENT_PROGRAM_ARB data base_register 1 s)
             (CHECK_GL_ERROR drv))"

definition SetVertexConstantBlock ::
  "driver \<Rightarrow> Context option \<Rightarrow> (nat \<Rightarrow> Vector4) option \<Rightarrow> int \<Rightarrow> int \<Rightarrow> state \<Rightarrow> error + state"
where
  "SetVertexConstantBlock drv context data base_register num_vectors s =
     (if context = None then Inl AssertionFailed
      else and_then (SetProgramConstantBlock drv context GL_VERTEX_PROGRAM_ARB data base_register num_vectors s)
             (CHECK_GL_ERROR drv))"

definition SetFragmentConstantBlock ::
  "driver \<Rightarrow> Context option \<Rightarrow> (nat \<Rightarrow> Vector4) option \<Rightarrow> int \<Rightarrow> int \<Rightarrow> state \<Rightarrow> error + state"
where
  "SetFragmentConstantBlock drv context data base_register num_vectors s =
     (if context = None then Inl AssertionFailed
      else and_then (SetProgramConstantBlock drv context GL_FRAGMENT_PROGRAM_ARB data base_register num_vectors s)
             (CHECK_GL_ERROR drv))"

text \<open>The call that writes register \<open>base_register + i\<close> from vector \<open>i\<close> of \<open>data\<close>.\<close>

definition register_write :: "program_target \<Rightarrow> (nat \<Rightarrow> Vector4) \<Rightarrow> int \<Rightarrow> nat \<Rightarrow> native_call" where
  "register_write type data base_register i =
     ProgramLocalParameter4fARB type (base_register + int i)
       (mX (data i)) (mY (data i)) (mZ (data i)) (mW (data i))"

definition example_vectors :: "nat \<Rightarrow> Vector4" where
  "example_vectors i =
     \<lparr>mX = word_of_nat (4 * i), mY = word_of_nat (4 * i + 1),
      mZ = word_of_nat (4 * i + 2), mW = word_of_nat (4 * i + 3)\<rparr>"

section \<open>Render targets\<close>

text \<open>
  Modelled from the spec: \<^verbatim>\<open>struct Texture\<close> and \<^verbatim>\<open>struct RenderTarget\<close> (\<^verbatim>\<open>opengl_device.h\<close>)
  are not among the sources; a render target bundles one colour texture and one depth
  renderbuffer behind one framebuffer object. \<^verbatim>\<open>HTexture\<close> is a pointer to a texture.
  \<^verbatim>\<open>delete\<close> of the two C++ objects is not part of the model.
\<close>

record Texture =
  m_Texture :: u32

record RenderTarget =
  m_Texture :: "Texture option"
  m_FboId :: u32
  m_RboId :: u32

text \<open>
  Modelled from the spec: \<^verbatim>\<open>enum TextureFormat\<close> is declared in \<^verbatim>\<open>graphics_device.h\<close>,
  which is not among the sources. Its enumerators are the ones \<^verbatim>\<open>SetTextureData\<close> names;
  \<open>TEXTURE_FORMAT_UNRECOGNIZED v\<close> stands for any other value.
\<close>

datatype TextureFormat =
    TEXTURE_FORMAT_LUMINANCE
  | TEXTURE_FORMAT_RGB
  | TEXTURE_FORMAT_RGBA
  | TEXTURE_FORMAT_RGB_DXT1
  | TEXTURE_FORMAT_RGBA_DXT1
  | TEXTURE_FORMAT_RGBA_DXT3
  | TEXTURE_FORMAT_RGBA_DXT5
  | TEXTURE_FORMAT_UNRECOGNIZED u32

text \<open>
  \<^verbatim>\<open>NewTexture\<close> returns the texture that \<^verbatim>\<open>new Texture\<close> allocated, so its result is
  never null.
\<close>

definition NewTexture :: "driver \<Rightarrow> state \<Rightarrow> error + (Texture option \<times> state)" where
  "NewTexture drv s0 =
     (let (t, s1) = glGenTextures drv s0 in
      and_then (CHECK_GL_ERROR drv s1) (\<lambda>s2.
      and_then (CHECK_GL_ERROR drv (glBindTexture GL_TEXTURE_2D t s2)) (\<lambda>s3.
      and_then (CHECK_GL_ERROR drv (glTexParameteri GL_TEXTURE_2D GL_GENERATE_MIPMAP GL_FALSE s3)) (\<lambda>s4.
      and_then (CHECK_GL_ERROR drv (glTexParameteri GL_TEXTURE_2D GL_TEXTURE_MIN_FILTER GL_LINEAR s4)) (\<lambda>s5.
      and_then (CHECK_GL_ERROR drv (glTexParameteri GL_TEXTURE_2D GL_TEXTURE_MAG_FILTER GL_LINEAR s5)) (\<lambda>s6.
      Inr (Some \<lparr>Texture.m_Texture = t\<rparr>, s6)))))))"

text \<open>
  \<^verbatim>\<open>SetTextureData\<close> reads \<^verbatim>\<open>texture->m_Texture\<close> without a test, so it takes the
  texture itself. The first \<^verbatim>\<open>switch\<close> yields \<^verbatim>\<open>gl_format\<close> and \<^verbatim>\<open>internal_format\<close>; for
  the compressed formats \<^verbatim>\<open>internal_format\<close> is not assigned and not read (0 stands
  for it).
\<close>

definition SetTextureData ::
  "driver \<Rightarrow> Texture \<Rightarrow> u16 \<Rightarrow> u16 \<Rightarrow> u16 \<Rightarrow> TextureFormat \<Rightarrow> ptr \<Rightarrow> u32 \<Rightarrow> state \<Rightarrow> error + state"
where
  "SetTextureData drv texture mip_map width height texture_format data data_size s0 =
     (let gl_type = GL_UNSIGNED_BYTE in
      and_then (CHECK_GL_ERROR drv (glBindTexture GL_TEXTURE_2D (Texture.m_Texture texture) s0)) (\<lambda>s1.
      and_then
        (case texture_format of
           TEXTURE_FORMAT_LUMINANCE \<Rightarrow> Inr (GL_LUMINANCE, 1, s1)
         | TEXTURE_FORMAT_RGB \<Rightarrow> Inr (GL_RGB, 3, s1)
         | TEXTURE_FORMAT_RGBA \<Rightarrow> Inr (GL_RGBA, 4, s1)
         | TEXTURE_FORMAT_RGB_DXT1 \<Rightarrow> Inr (GL_COMPRESSED_RGB_S3TC_DXT1_EXT, 0, s1)
         | TEXTURE_FORMAT_RGBA_DXT1 \<Rightarrow> Inr (GL_COMPRESSED_RGBA_S3TC_DXT1_EXT, 0, s1)
         | TEXTURE_FORMAT_RGBA_DXT3 \<Rightarrow> Inr (GL_COMPRESSED_RGBA_S3TC_DXT3_EXT, 0, s1)
         | TEXTURE_FORMAT_RGBA_DXT5 \<Rightarrow>
             and_then (CHECK_GL_ERROR drv s1) (\<lambda>s. Inr (GL_COMPRESSED_RGBA_S3TC_DXT5_EXT, 0, s))
         | TEXTURE_FORMAT_UNRECOGNIZED v \<Rightarrow> Inl AssertionFailed)
        (\<lambda>(gl_format, internal_format, s2).
           case texture_format of
             TEXTURE_FORMAT_LUMINANCE \<Rightarrow>
               CHECK_GL_ERROR drv
                 (glTexImage2D GL_TEXTURE_2D mip_map internal_format width height 0 gl_format gl_type data s2)
           | TEXTURE_FORMAT_RGB \<Rightarrow>
               CHECK_GL_ERROR drv
                 (glTexImage2D GL_TEXTURE_2D mip_map internal_format width height 0 gl_format gl_type data s2)
           | TEXTURE_FORMAT_RGBA \<Rightarrow>
               CHECK_GL_ERROR drv
                 (glTexImage2D GL_TEXTURE_2D mip_map internal_format width height 0 gl_format gl_type data s2)
           | TEXTURE_FORMAT_RGB_DXT1 \<Rightarrow>
               CHECK_GL_ERROR drv
                 (glCompressedTexImage2D GL_TEXTURE_2D mip_map gl_format width height 0 data_size data s2)
           | TEXTURE_FORMAT_RGBA_DXT1 \<Rightarrow>
               CHECK_GL_ERROR drv
                 (glCompressedTexImage2D GL_TEXTURE_2D mip_map gl_format width height 0 data_size data s2)
           | TEXTURE_FORMAT_RGBA_DXT3 \<Rightarrow>
               CHECK_GL_ERROR drv
                 (glCompressedTexImage2D GL_TEXTURE_2D mip_map gl_format width height 0 data_size data s2)
           | TEXTURE_FORMAT_RGBA_DXT5 \<Rightarrow>
               CHECK_GL_ERROR drv
                 (glCompressedTexImage2D GL_TEXTURE_2D mip_map gl_format width height 0 data_size data s2)
           | TEXTURE_FORMAT_UNRECOGNIZED v \<Rightarrow> Inl AssertionFailed)))"

text \<open>
  \<^verbatim>\<open>NewRenderTarget\<close>. The \<^verbatim>\<open>uint32_t\<close> width and height are converted to the
  \<^verbatim>\<open>uint16_t\<close> parameters of \<^verbatim>\<open>SetTextureData\<close>; the format argument is not used. The
  texture is read through \<^verbatim>\<open>rt->m_Texture\<close> without a test.
\<close>

definition NewRenderTarget ::
  "driver \<Rightarrow> u32 \<Rightarrow> u32 \<Rightarrow> TextureFormat \<Rightarrow> state \<Rightarrow> error + (RenderTarget \<times> state)"
where
  "NewRenderTarget drv width height format s0 =
     and_then (NewTexture drv s0) (\<lambda>(texture, s1).
     case texture of
       None \<Rightarrow> Inl NullDereference
     | Some t \<Rightarrow>
     and_then (SetTextureData drv t 0 (ucast width) (ucast height) TEXTURE_FORMAT_RGBA 0 0 s1) (\<lambda>s2.
     let (fbo, s3) = glGenFramebuffers drv s2 in
     and_then (CHECK_GL_ERROR drv s3) (\<lambda>s4.
     and_then (CHECK_GL_ERROR drv (glBindFramebuffer GL_FRAMEBUFFER_EXT fbo s4)) (\<lambda>s5.
     let (rbo, s6) = glGenRenderbuffers drv s5 in
     and_then (CHECK_GL_ERROR drv s6) (\<lambda>s7.
     and_then (CHECK_GL_ERROR drv (glBindRenderbuffer GL_RENDERBUFFER_EXT rbo s7)) (\<lambda>s8.
     and_then (CHECK_GL_ERROR drv
                 (glRenderbufferStorage GL_RENDERBUFFER_EXT GL_DEPTH_COMPONENT width height s8)) (\<lambda>s9.
     and_then (CHECK_GL_ERROR drv (glBindRenderbuffer GL_RENDERBUFFER_EXT 0 s9)) (\<lambda>s10.
     and_then (CHECK_GL_ERROR drv
                 (glFramebufferTexture2D GL_FRAMEBUFFER_EXT GL_COLOR_ATTACHMENT0_EXT GL_TEXTURE_2D
                    (Texture.m_Texture t) 0 s10)) (\<lambda>s11.
     and_then (CHECK_GL_ERROR drv
                 (glFramebufferRenderbuffer GL_FRAMEBUFFER_EXT GL_DEPTH_ATTACHMENT_EXT
                    GL_RENDERBUFFER_EXT rbo s11)) (\<lambda>s12.
     and_then (CHECK_GL_ERROR drv (glBindFramebuffer GL_FRAMEBUFFER_EXT 0 s12)) (\<lambda>s13.
     and_then (CHECK_GL_ERROR drv (glBindRenderbuffer GL_RENDERBUFFER_EXT 0 s13)) (\<lambda>s14.
     Inr (\<lparr>RenderTarget.m_Texture = texture, m_FboId = fbo, m_RboId = rbo\<rparr>, s14)))))))))))))"

definition DeleteTexture :: "Texture option \<Rightarrow> state \<Rightarrow> error + state" where
  "DeleteTexture texture s =
     (case texture of
        None \<Rightarrow> Inl AssertionFailed
      | Some t \<Rightarrow> Inr (glDeleteTextures [Texture.m_Texture t] s))"

definition DeleteRenderTarget :: "RenderTarget \<Rightarrow> state \<Rightarrow> error + state" where
  "DeleteRenderTarget rendertarget s0 =
     (let s1 = glDeleteFramebuffers [m_FboId rendertarget] s0;
          s2 = glDeleteRenderbuffers [m_RboId rendertarget] s1
      in DeleteTexture (RenderTarget.m_Texture rendertarget) s2)"

definition EnableRenderTarget :: "Context option \<Rightarrow> RenderTarget \<Rightarrow> state \<Rightarrow> state" where
  "EnableRenderTarget context rendertarget s = glBindFramebuffer GL_FRAMEBUFFER_EXT (m_FboId rendertarget) s"

definition DisableRenderTarget :: "Context option \<Rightarrow> RenderTarget \<Rightarrow> state \<Rightarrow> state" where
  "DisableRenderTarget context rendertarget s = glBindFramebuffer GL_FRAMEBUFFER_EXT 0 s"

definition GetRenderTargetTexture :: "RenderTarget \<Rightarrow> Texture option" where
  "GetRenderTargetTexture rendertarget = RenderTarget.m_Texture rendertarget"

text \<open>The calls that release a native resource.\<close>

fun is_release :: "native_call \<Rightarrow> bool" where
  "is_release (DeleteFramebuffers names) = True"
| "is_release (DeleteRenderbuffers names) = True"
| "is_release (DeleteTextures names) = True"
| "is_release _ = False"

definition example_target :: RenderTarget where
  "example_target = \<lparr>RenderTarget.m_Texture = Some \<lparr>Texture.m_Texture = 7\<rparr>, m_FboId = 3, m_RboId = 4\<rparr>"

section \<open>Sockets from the configuration\<close>

text \<open>
  Modelled from the spec: \<^verbatim>\<open>dmConfigFile::GetInt\<close> is not among the sources. The
  configuration is a key-value store; a lookup yields the stored integer, and the
  default passed to it when the store has no entry for the key.
\<close>

type_synonym HConfig = "string \<rightharpoonup> int"

definition dmConfigFile_GetInt :: "HConfig \<Rightarrow> string \<Rightarrow> int \<Rightarrow> int" where
  "dmConfigFile_GetInt config key default_value =
     (case config key of None \<Rightarrow> default_value | Some v \<Rightarrow> v)"

text \<open>
  The \<^verbatim>\<open>int\<close>s in memory by address, the keys looked up so far and the assignments
  through \<^verbatim>\<open>int*\<close> made so far (address and value). An output parameter \<^verbatim>\<open>int*\<close> is an
  address, 0 being null.
\<close>

record memory =
  ints :: "ptr \<Rightarrow> int"
  lookups :: "string list"
  stores :: "(ptr \<times> int) list"

text \<open>The statement \<^verbatim>\<open>*p = dmConfigFile::GetInt(config, key, -1);\<close>\<close>

definition store_GetInt ::
  "('config \<Rightarrow> string \<Rightarrow> int \<Rightarrow> int) \<Rightarrow> 'config \<Rightarrow> string \<Rightarrow> ptr \<Rightarrow> memory \<Rightarrow> memory"
where
  "store_GetInt GetInt config key p m =
     m\<lparr>ints := (ints m)(p := GetInt config key (- 1)),
       lookups := lookups m @ [key],
       stores := stores m @ [(p, GetInt config key (- 1))]\<rparr>"

text \<open>\<^verbatim>\<open>GetSocketsFromConfig\<close>, for any lookup function in the place of \<^verbatim>\<open>dmConfigFile::GetInt\<close>.\<close>

definition GetSocketsFromConfig ::
  "('config \<Rightarrow> string \<Rightarrow> int \<Rightarrow> int) \<Rightarrow> 'config \<Rightarrow> ptr \<Rightarrow> ptr \<Rightarrow> ptr \<Rightarrow> memory \<Rightarrow> memory"
where
  "GetSocketsFromConfig GetInt config socket socket_ssl socket_ssl_test m0 =
     (let m1 = (if socket \<noteq> 0
                then store_GetInt GetInt config ''server.socket'' socket m0 else m0);
          m2 = (if socket_ssl \<noteq> 0
                then store_GetInt GetInt config ''server.socket_ssl'' socket_ssl m1 else m1);
          m3 = (if socket_ssl_test \<noteq> 0
                then store_GetInt GetInt config ''server.socket_ssl_test'' socket_ssl_test m2 else m2)
      in m3)"

text \<open>
  The same guarded assignments carried out in the order of a list of keys and outputs;
  the source's order is socket, secure socket, secure test socket.
\<close>

fun guarded_lookups ::
  "('config \<Rightarrow> string \<Rightarrow> int \<Rightarrow> int) \<Rightarrow> 'config \<Rightarrow> (string \<times> ptr) list \<Rightarrow> memory \<Rightarrow> memory"
where
  "guarded_lookups GetInt config [] m = m"
| "guarded_lookups GetInt config ((key, p) # rest) m =
     guarded_lookups GetInt config rest (if p \<noteq> 0 then store_GetInt GetInt config key p m else m)"

text \<open>The non-null outputs are different cells.\<close>

definition separate_outputs :: "ptr list \<Rightarrow> bool" where
  "separate_outputs ps = distinct (filter (\<lambda>p. p \<noteq> 0) ps)"

definition example_config :: HConfig where
  "example_config = [''server.socket'' \<mapsto> 8001, ''server.socket_ssl'' \<mapsto> 8002]"

text \<open>The assignments made from memory \<open>m\<close> on, in a later memory \<open>m'\<close>.\<close>

definition stored_since :: "memory \<Rightarrow> memory \<Rightarrow> (ptr \<times> int) list" where
  "stored_since m m' = drop (length (stores m)) (stores m')"

definition example_memory :: memory where
  "example_memory = \<lparr>ints = (\<lambda>_. 0), lookups = [], stores = []\<rparr>"

section \<open>Example environments\<close>

text \<open>A driver that never reports an error and opens every window.\<close>

definition quiet_driver :: driver where
  "quiet_driver =
     \<lparr>glGetError_result = (\<lambda>_. 0), glfwOpenWindow_result = (\<lambda>_. 1),
      glMapBufferARB_result = (\<lambda>_. 4096), glUnmapBufferARB_result = (\<lambda>_. GL_TRUE),
      glGenTextures_result = (\<lambda>_. 7), glGenFramebuffers_result = (\<lambda>_. 3),
      glGenRenderbuffers_result = (\<lambda>_. 4)\<rparr>"

definition no_window_driver :: driver where
  "no_window_driver = quiet_driver\<lparr>glfwOpenWindow_result := (\<lambda>_. 0)\<rparr>"

definition initial_state :: state where
  "initial_state =
     \<lparr>gdevice = \<lparr>m_DisplayWidth = 0, m_DisplayHeight = 0\<rparr>, native_calls = [],
      buffer_binding = (\<lambda>_. 0), framebuffer_binding = 0\<rparr>"

section \<open>Properties\<close>

lemma and_then_simps [simp]:
  "and_then (Inl e) f = Inl e"
  "and_then (Inr a) f = f a"
  by (simp_all add: and_then_def)

lemma and_then_eq_Inr:
  "and_then m f = Inr b \<longleftrightarrow> (\<exists>a. m = Inr a \<and> f a = Inr b)"
  by (cases m) simp_all

subsection \<open>Vertex declarations\<close>

lemma recognized_Inr: "recognized t \<Longrightarrow> \<exists>sz. GetTypeSize t = Inr sz"
  by (cases "GetTypeSize t") (simp_all add: recognized_def)

lemma stream_bytes_Inr: "GetTypeSize (m_Type e) = Inr sz \<Longrightarrow> stream_bytes e = m_Size e * sz"
  by (simp add: stream_bytes_def)

lemma NewVertexDeclaration_loop_result:
  "\<forall>j. i \<le> j \<and> j < count \<longrightarrow> recognized (m_Type (element j)) \<Longrightarrow>
   \<exists>vd'. NewVertexDeclaration_loop element count i vd = Inr vd' \<and>
     m_Stride vd' = m_Stride vd + (\<Sum>j = i..<count. stream_bytes (element j)) \<and>
     m_StreamCount vd' = m_StreamCount vd \<and>
     (\<forall>k. m_Streams vd' k =
        (if i \<le> k \<and> k < count
         then declared_stream element k (m_Stride vd + (\<Sum>j = i..<k. stream_bytes (element j)))
         else m_Streams vd k))"
proof (induction element count i vd rule: NewVertexDeclaration_loop.induct)
  case (1 element count i vd)
  show ?case
  proof (cases "i < count")
    case False
    then show ?thesis
      by (auto simp: NewVertexDeclaration_loop.simps [of element count i vd])
  next
    case True
    with "1.prems" obtain sz where sz: "GetTypeSize (m_Type (element i)) = Inr sz"
      using recognized_Inr by blast
    have bytes: "stream_bytes (element i) = m_Size (element i) * sz"
      using sz by (rule stream_bytes_Inr)
    have rest: "\<forall>j. Suc i \<le> j \<and> j < count \<longrightarrow> recognized (m_Type (element j))"
      using "1.prems" by simp
    define vd2 where "vd2 = vd\<lparr>m_Streams := (m_Streams vd)(i :=
                      \<lparr>m_Size = m_Size (element i),
                       m_Usage = m_Usage (element i),
                       m_Type = m_Type (element i),
                       m_UsageIndex = m_UsageIndex (element i),
                       m_Index = i,
                       m_Offset = m_Stride vd\<rparr>),
                   m_Stride := m_Stride vd + m_Size (element i) * sz\<rparr>"
    have vd2: "m_Stride vd2 = m_Stride vd + stream_bytes (element i)"
      "m_StreamCount vd2 = m_StreamCount vd"
      "m_Streams vd2 = (m_Streams vd)(i := declared_stream element i (m_Stride vd))"
      by (simp_all add: vd2_def bytes declared_stream_def)
    from "1.IH" [OF True sz rest, folded vd2_def]
    obtain vd' where vd': "NewVertexDeclaration_loop element count (Suc i) vd2 = Inr vd'"
      "m_Stride vd' = m_Stride vd2 + (\<Sum>j = Suc i..<count. stream_bytes (element j))"
      "m_StreamCount vd' = m_StreamCount vd2"
      "\<And>k. m_Streams vd' k =
        (if Suc i \<le> k \<and> k < count
         then declared_stream element k (m_Stride vd2 + (\<Sum>j = Suc i..<k. stream_bytes (element j)))
         else m_Streams vd2 k)"
      by blast
    have split_sum: "\<And>k. i < k \<Longrightarrow>
        (\<Sum>j = i..<k. stream_bytes (element j)) = stream_bytes (element i) + (\<Sum>j = Suc i..<k. stream_bytes (element j))"
      by (simp add: sum.atLeast_Suc_lessThan)
    have "NewVertexDeclaration_loop element count i vd = Inr vd'"
      by (subst NewVertexDeclaration_loop.simps) (simp add: True sz vd'(1) [unfolded vd2_def])
    moreover have "m_Stride vd' = m_Stride vd + (\<Sum>j = i..<count. stream_bytes (element j))"
      by (simp add: vd'(2) vd2(1) split_sum [OF True] add.assoc)
    moreover have "m_StreamCount vd' = m_StreamCount vd"
      by (simp add: vd'(3) vd2(2))
    moreover have "m_Streams vd' k =
        (if i \<le> k \<and> k < count
         then declared_stream element k (m_Stride vd + (\<Sum>j = i..<k. stream_bytes (element j)))
         else m_Streams vd k)" for k
    proof -
      consider "k < i" | "k = i" | "i < k"
        by linarith
      then show ?thesis
      proof cases
        case 1
        then show ?thesis by (simp add: vd'(4) vd2(3))
      next
        case 2
        then show ?thesis using True by (simp add: vd'(4) vd2(3))
      next
        case 3
        then show ?thesis by (simp add: vd'(4) vd2 split_sum [OF 3] add.assoc)
      qed
    qed
    ultimately show ?thesis by blast
  qed
qed

lemma NewVertexDeclaration_loop_unrecognized:
  "\<exists>j. i \<le> j \<and> j < count \<and> \<not> recognized (m_Type (element j)) \<Longrightarrow>
   NewVertexDeclaration_loop element count i vd = Inl AssertionFailed"
proof (induction element count i vd rule: NewVertexDeclaration_loop.induct)
  case (1 element count i vd)
  then obtain j where j: "i \<le> j" "j < count" "\<not> recognized (m_Type (element j))" by blast
  then have lt: "i < count" by simp
  show ?case
  proof (cases "GetTypeSize (m_Type (element i))")
    case (Inl e)
    then have "e = AssertionFailed" by (cases "m_Type (element i)") simp_all
    with Inl lt show ?thesis
      by (simp add: NewVertexDeclaration_loop.simps [of element count i vd])
  next
    case (Inr sz)
    then have "recognized (m_Type (element i))" by (simp add: recognized_def)
    with j have "Suc i \<le> j" by (cases "i = j") auto
    with j have "\<exists>j. Suc i \<le> j \<and> j < count \<and> \<not> recognized (m_Type (element j))" by blast
    from "1.IH" [OF lt Inr this] lt Inr show ?thesis
      by (simp add: NewVertexDeclaration_loop.simps [of element count i vd])
  qed
qed


lemma NewVertexDeclaration_Inr_iff:
  "(\<exists>vd. NewVertexDeclaration capacity fresh element count = Inr vd) \<longleftrightarrow>
     count < capacity \<and> (\<forall>j<count. recognized (m_Type (element j)))"
proof (cases "count < capacity")
  case False
  then show ?thesis by (simp add: NewVertexDeclaration_def)
next
  case True
  show ?thesis
  proof (cases "\<forall>j<count. recognized (m_Type (element j))")
    case all: True
    then have "\<forall>j. 0 \<le> j \<and> j < count \<longrightarrow> recognized (m_Type (element j))" by simp
    from NewVertexDeclaration_loop_result [OF this, of "fresh\<lparr>m_Stride := 0\<rparr>"] True all show ?thesis
      by (auto simp: NewVertexDeclaration_def)
  next
    case False
    then have "\<exists>j. 0 \<le> j \<and> j < count \<and> \<not> recognized (m_Type (element j))" by auto
    from NewVertexDeclaration_loop_unrecognized [OF this, of "fresh\<lparr>m_Stride := 0\<rparr>"] True False show ?thesis
      by (simp add: NewVertexDeclaration_def)
  qed
qed

lemma NewVertexDeclaration_Inr_streams:
  assumes "NewVertexDeclaration capacity fresh element count = Inr vd"
  shows "m_StreamCount vd = count"
    and "m_Stride vd = (\<Sum>j<count. stream_bytes (element j))"
    and "i < count \<Longrightarrow> m_Streams vd i = declared_stream element i (\<Sum>j<i. stream_bytes (element j))"
    and "\<not> i < count \<Longrightarrow> m_Streams vd i = m_Streams fresh i"
proof -
  from assms have "\<exists>vd. NewVertexDeclaration capacity fresh element count = Inr vd" by blast
  then have cap: "count < capacity" and all: "\<forall>j<count. recognized (m_Type (element j))"
    by (simp_all add: NewVertexDeclaration_Inr_iff)
  from all have "\<forall>j. 0 \<le> j \<and> j < count \<longrightarrow> recognized (m_Type (element j))" by simp
  from NewVertexDeclaration_loop_result [OF this, of "fresh\<lparr>m_Stride := 0\<rparr>"]
  obtain vd' where vd': "NewVertexDeclaration_loop element count 0 (fresh\<lparr>m_Stride := 0\<rparr>) = Inr vd'"
    "m_Stride vd' = (\<Sum>j = 0..<count. stream_bytes (element j))"
    "\<And>k. m_Streams vd' k =
        (if k < count then declared_stream element k (\<Sum>j = 0..<k. stream_bytes (element j))
         else m_Streams fresh k)"
    by auto
  from assms cap vd'(1) have vd: "vd = vd'\<lparr>m_StreamCount := count\<rparr>"
    by (simp add: NewVertexDeclaration_def)
  show "m_StreamCount vd = count" by (simp add: vd)
  show "m_Stride vd = (\<Sum>j<count. stream_bytes (element j))"
    by (simp add: vd vd'(2) atLeast0LessThan)
  show "i < count \<Longrightarrow> m_Streams vd i = declared_stream element i (\<Sum>j<i. stream_bytes (element j))"
    by (simp add: vd vd'(3) atLeast0LessThan)
  show "\<not> i < count \<Longrightarrow> m_Streams vd i = m_Streams fresh i"
    by (simp add: vd vd'(3))
qed

lemma stream_bytes_of_nat: "stream_bytes e = of_nat (stream_bytes_nat e)"
  by (cases "GetTypeSize (m_Type e)") (simp_all add: stream_bytes_def stream_bytes_nat_def component_bytes_def)

lemma unat_sum_stream_bytes:
  assumes "(\<Sum>j<n. stream_bytes_nat (element j)) < 2 ^ 32"
  shows "unat (\<Sum>j<n. stream_bytes (element j)) = (\<Sum>j<n. stream_bytes_nat (element j))"
proof -
  have "(\<Sum>j<n. stream_bytes (element j)) = (of_nat (\<Sum>j<n. stream_bytes_nat (element j)) :: u32)"
    by (simp add: stream_bytes_of_nat)
  from of_nat_inverse [OF this [symmetric]] assms show ?thesis
    by simp
qed

lemma prefix_sum_le:
  fixes f :: "nat \<Rightarrow> nat"
  shows "i \<le> n \<Longrightarrow> (\<Sum>j<i. f j) \<le> (\<Sum>j<n. f j)"
  by (rule sum_mono2) auto

text \<open>
  Claim C5. \<^verbatim>\<open>GetTypeSize\<close> returns 1 for the two byte tags, 2 for the two short tags and
  4 for the int and float tags; for every other tag it fails the assertion and returns
  no size at all.
\<close>

theorem GetTypeSize_fixed_sizes:
  "GetTypeSize t =
     (if t \<in> {TYPE_BYTE, TYPE_UNSIGNED_BYTE} then Inr 1
      else if t \<in> {TYPE_SHORT, TYPE_UNSIGNED_SHORT} then Inr 2
      else if t \<in> {TYPE_INT, TYPE_UNSIGNED_INT, TYPE_FLOAT} then Inr 4
      else Inl AssertionFailed)"
  by (cases t) simp_all

text \<open>
  Claim C1. \<^verbatim>\<open>NewVertexDeclaration\<close> returns a declaration exactly when the count is
  below the capacity of \<^verbatim>\<open>m_Streams\<close> and every tag is recognized. In the declaration it
  returns, the offset of stream \<open>i\<close> is the sum of component count times component byte
  size over the streams before \<open>i\<close>, and the stride is that sum over all streams. The
  sums are taken in \<^verbatim>\<open>uint32_t\<close> arithmetic as the code takes them; when the sum of all
  streams fits 32 bits they are the sums of natural numbers.
\<close>

theorem NewVertexDeclaration_offsets_stride:
  "((\<exists>vd. NewVertexDeclaration capacity fresh element count = Inr vd) \<longleftrightarrow>
      count < capacity \<and> (\<forall>j<count. recognized (m_Type (element j)))) \<and>
   (NewVertexDeclaration capacity fresh element count = Inr vd \<longrightarrow>
      m_StreamCount vd = count \<and>
      (\<forall>i<count. m_Offset (m_Streams vd i) = (\<Sum>j<i. stream_bytes (element j))) \<and>
      m_Stride vd = (\<Sum>j<count. stream_bytes (element j)) \<and>
      ((\<Sum>j<count. stream_bytes_nat (element j)) < 2 ^ 32 \<longrightarrow>
         (\<forall>i<count. unat (m_Offset (m_Streams vd i)) = (\<Sum>j<i. stream_bytes_nat (element j))) \<and>
         unat (m_Stride vd) = (\<Sum>j<count. stream_bytes_nat (element j))))"
proof (intro conjI impI allI)
  show "(\<exists>vd. NewVertexDeclaration capacity fresh element count = Inr vd) \<longleftrightarrow>
      count < capacity \<and> (\<forall>j<count. recognized (m_Type (element j)))"
    by (rule NewVertexDeclaration_Inr_iff)
next
  assume r: "NewVertexDeclaration capacity fresh element count = Inr vd"
  note s = NewVertexDeclaration_Inr_streams [OF r]
  show "m_StreamCount vd = count" by (rule s(1))
  show "m_Stride vd = (\<Sum>j<count. stream_bytes (element j))" by (rule s(2))
  show "m_Offset (m_Streams vd i) = (\<Sum>j<i. stream_bytes (element j))" if "i < count" for i
    using that by (simp add: s(3) declared_stream_def)
  assume small: "(\<Sum>j<count. stream_bytes_nat (element j)) < 2 ^ 32"
  show "unat (m_Stride vd) = (\<Sum>j<count. stream_bytes_nat (element j))"
    by (simp add: s(2) unat_sum_stream_bytes [OF small])
  show "unat (m_Offset (m_Streams vd i)) = (\<Sum>j<i. stream_bytes_nat (element j))" if "i < count" for i
  proof -
    have "(\<Sum>j<i. stream_bytes_nat (element j)) \<le> (\<Sum>j<count. stream_bytes_nat (element j))"
      using that by (intro prefix_sum_le) simp
    with small have "(\<Sum>j<i. stream_bytes_nat (element j)) < 2 ^ 32" by simp
    then show ?thesis
      using that by (simp add: s(3) declared_stream_def unat_sum_stream_bytes)
  qed
qed


lemma NewVertexDeclaration_Inl:
  "NewVertexDeclaration capacity fresh element count = Inl e \<Longrightarrow> e = AssertionFailed"
proof (cases "count < capacity \<and> (\<forall>j<count. recognized (m_Type (element j)))")
  case True
  then obtain vd where "NewVertexDeclaration capacity fresh element count = Inr vd"
    using NewVertexDeclaration_Inr_iff by blast
  then show "NewVertexDeclaration capacity fresh element count = Inl e \<Longrightarrow> e = AssertionFailed"
    by simp
next
  case False
  assume e: "NewVertexDeclaration capacity fresh element count = Inl e"
  show "e = AssertionFailed"
  proof (cases "count < capacity")
    case False
    with e show ?thesis by (simp add: NewVertexDeclaration_def)
  next
    case True
    with False have "\<exists>j. 0 \<le> j \<and> j < count \<and> \<not> recognized (m_Type (element j))" by auto
    from NewVertexDeclaration_loop_unrecognized [OF this, of "fresh\<lparr>m_Stride := 0\<rparr>"] True e show ?thesis
      by (simp add: NewVertexDeclaration_def)
  qed
qed

lemma example_elements_recognized: "recognized (m_Type (example_elements j))"
  by (simp add: example_elements_def recognized_def)

theorem NewVertexDeclaration_offsets_stride_witness:
  "\<exists>vd. NewVertexDeclaration 8 (example_fresh 0xCDCDCDCD) example_elements 2 = Inr vd \<and>
     m_StreamCount vd = 2 \<and>
     m_Offset (m_Streams vd 0) = 0 \<and> m_Offset (m_Streams vd 1) = 12 \<and> m_Stride vd = 16 \<and>
     unat (m_Stride vd) = 16"
proof -
  note c1 = NewVertexDeclaration_offsets_stride [of 8 "example_fresh 0xCDCDCDCD" example_elements 2]
  have sums: "(\<Sum>j<2. stream_bytes (example_elements j)) = 16"
    "(\<Sum>j<1. stream_bytes (example_elements j)) = 12"
    "(\<Sum>j<2. stream_bytes_nat (example_elements j)) = 16"
  proof -
    have sets: "{..<2::nat} = {0, 1}" "{..<1::nat} = {0}" by auto
    show "(\<Sum>j<2. stream_bytes (example_elements j)) = 16"
      "(\<Sum>j<1. stream_bytes (example_elements j)) = 12"
      "(\<Sum>j<2. stream_bytes_nat (example_elements j)) = 16"
      by (simp_all add: sets stream_bytes_def stream_bytes_nat_def component_bytes_def
          example_elements_def)
  qed
  have "\<exists>vd. NewVertexDeclaration 8 (example_fresh 0xCDCDCDCD) example_elements 2 = Inr vd"
    using c1 [THEN conjunct1] by (simp add: example_elements_recognized)
  then obtain vd where
    vd: "NewVertexDeclaration 8 (example_fresh 0xCDCDCDCD) example_elements 2 = Inr vd" ..
  from c1 [of vd, THEN conjunct2, THEN mp, OF vd]
  have count: "m_StreamCount vd = 2"
    and offsets: "\<And>i. i < 2 \<Longrightarrow> m_Offset (m_Streams vd i) = (\<Sum>j<i. stream_bytes (example_elements j))"
    and stride: "m_Stride vd = (\<Sum>j<2. stream_bytes (example_elements j))"
    and exact: "(\<Sum>j<2. stream_bytes_nat (example_elements j)) < 2 ^ 32 \<Longrightarrow>
                  unat (m_Stride vd) = (\<Sum>j<2. stream_bytes_nat (example_elements j))"
    by blast+
  have b0: "stream_bytes (example_elements 0) = 12"
    by (simp add: stream_bytes_def example_elements_def)
  have "m_Offset (m_Streams vd 0) = 0"
    using offsets [of 0] by simp
  moreover have "m_Offset (m_Streams vd 1) = 12"
    using offsets [of 1] by (simp add: b0)
  moreover have "m_Stride vd = 16"
    using stride by (simp only: sums)
  moreover have "unat (m_Stride vd) = 16"
    using exact by (simp only: sums) simp
  ultimately show ?thesis
    using vd count by simp
qed

text \<open>
  Claim C7. Two calls of \<^verbatim>\<open>NewVertexDeclaration\<close> on the same descriptors and count,
  whatever the freshly allocated objects hold, fail alike or return declarations with
  the same stream count, the same streams (so the same offsets) below the count, and the
  same stride.
\<close>

theorem NewVertexDeclaration_deterministic:
  "(\<forall>j<count. element' j = element j) \<longrightarrow>
     (NewVertexDeclaration capacity fresh' element' count = Inl e \<longleftrightarrow>
        NewVertexDeclaration capacity fresh element count = Inl e) \<and>
     ((\<exists>b. NewVertexDeclaration capacity fresh' element' count = Inr b) \<longleftrightarrow>
        (\<exists>a. NewVertexDeclaration capacity fresh element count = Inr a)) \<and>
     (NewVertexDeclaration capacity fresh element count = Inr a \<and>
      NewVertexDeclaration capacity fresh' element' count = Inr b \<longrightarrow>
        m_StreamCount a = m_StreamCount b \<and>
        (\<forall>i<m_StreamCount a. m_Streams a i = m_Streams b i \<and>
                               m_Offset (m_Streams a i) = m_Offset (m_Streams b i)) \<and>
        m_Stride a = m_Stride b)"
proof (intro impI)
  assume same: "\<forall>j<count. element' j = element j"
  have ok: "(\<exists>b. NewVertexDeclaration capacity fresh' element' count = Inr b) \<longleftrightarrow>
        (\<exists>a. NewVertexDeclaration capacity fresh element count = Inr a)"
    using same by (simp add: NewVertexDeclaration_Inr_iff)
  have err: "NewVertexDeclaration capacity fresh' element' count = Inl e \<longleftrightarrow>
        NewVertexDeclaration capacity fresh element count = Inl e"
  proof -
    have "NewVertexDeclaration c f el count = Inl e \<longleftrightarrow>
            e = AssertionFailed \<and> \<not> (\<exists>a. NewVertexDeclaration c f el count = Inr a)" for c f el
      using NewVertexDeclaration_Inl [of c f el count]
      by (cases "NewVertexDeclaration c f el count") auto
    from this [of capacity fresh' element'] this [of capacity fresh element] ok
    show ?thesis by blast
  qed
  have eq: "m_StreamCount a = m_StreamCount b \<and>
        (\<forall>i<m_StreamCount a. m_Streams a i = m_Streams b i \<and>
                               m_Offset (m_Streams a i) = m_Offset (m_Streams b i)) \<and>
        m_Stride a = m_Stride b"
    if a: "NewVertexDeclaration capacity fresh element count = Inr a"
      and b: "NewVertexDeclaration capacity fresh' element' count = Inr b"
  proof -
    note sa = NewVertexDeclaration_Inr_streams [OF a]
    note sb = NewVertexDeclaration_Inr_streams [OF b]
    have bytes: "(\<Sum>j<i. stream_bytes (element' j)) = (\<Sum>j<i. stream_bytes (element j))"
      if "i \<le> count" for i
      using that same by (intro sum.cong) auto
    have "m_Streams a i = m_Streams b i" if "i < count" for i
      using that same by (simp add: sa(3) sb(3) declared_stream_def bytes)
    then show ?thesis
      by (simp add: sa(1,2) sb(1,2) bytes)
  qed
  from ok err eq show "(NewVertexDeclaration capacity fresh' element' count = Inl e \<longleftrightarrow>
        NewVertexDeclaration capacity fresh element count = Inl e) \<and>
     ((\<exists>b. NewVertexDeclaration capacity fresh' element' count = Inr b) \<longleftrightarrow>
        (\<exists>a. NewVertexDeclaration capacity fresh element count = Inr a)) \<and>
     (NewVertexDeclaration capacity fresh element count = Inr a \<and>
      NewVertexDeclaration capacity fresh' element' count = Inr b \<longrightarrow>
        m_StreamCount a = m_StreamCount b \<and>
        (\<forall>i<m_StreamCount a. m_Streams a i = m_Streams b i \<and>
                               m_Offset (m_Streams a i) = m_Offset (m_Streams b i)) \<and>
        m_Stride a = m_Stride b)"
    by blast
qed

theorem NewVertexDeclaration_deterministic_witness:
  "\<exists>a b. NewVertexDeclaration 8 (example_fresh 0xCDCDCDCD) example_elements 2 = Inr a \<and>
         NewVertexDeclaration 8 (example_fresh 0) example_elements 2 = Inr b \<and>
         m_StreamCount a = m_StreamCount b \<and>
         m_Streams a 1 = m_Streams b 1 \<and>
         m_Offset (m_Streams a 1) = m_Offset (m_Streams b 1) \<and>
         m_Stride a = m_Stride b"
proof -
  have ok: "\<exists>vd. NewVertexDeclaration 8 (example_fresh g) example_elements 2 = Inr vd" for g
    by (simp add: NewVertexDeclaration_Inr_iff example_elements_recognized)
  from ok [of "0xCDCDCDCD"] obtain a where
    a: "NewVertexDeclaration 8 (example_fresh 0xCDCDCDCD) example_elements 2 = Inr a" ..
  from ok [of 0] obtain b where
    b: "NewVertexDeclaration 8 (example_fresh 0) example_elements 2 = Inr b" ..
  have count: "m_StreamCount a = 2"
    using NewVertexDeclaration_Inr_streams(1) [OF a] .
  from NewVertexDeclaration_deterministic
    [of 2 example_elements example_elements 8 "example_fresh 0" AssertionFailed
        "example_fresh 0xCDCDCDCD" a b] a b
  have same: "m_StreamCount a = m_StreamCount b \<and>
        (\<forall>i<m_StreamCount a. m_Streams a i = m_Streams b i \<and>
                               m_Offset (m_Streams a i) = m_Offset (m_Streams b i)) \<and>
        m_Stride a = m_Stride b"
    by blast
  then have "m_Streams a 1 = m_Streams b 1 \<and> m_Offset (m_Streams a 1) = m_Offset (m_Streams b 1)"
    using count by simp
  with same a b show ?thesis by blast
qed

subsection \<open>The native interface\<close>

lemma issue_simps [simp]:
  "native_calls (issue c s) = native_calls s @ [c]"
  "buffer_binding (issue c s) = buffer_binding s"
  "framebuffer_binding (issue c s) = framebuffer_binding s"
  "gdevice (issue c s) = gdevice s"
  by (simp_all add: issue_def)

lemma CHECK_GL_ERROR_Inr:
  "CHECK_GL_ERROR drv s = Inr s' \<longleftrightarrow> glGetError_result drv (native_calls s) = 0 \<and> s' = s"
  by (auto simp: CHECK_GL_ERROR_def Let_def)

lemma CHECK_GL_ERROR_quiet:
  "\<forall>calls. glGetError_result drv calls = 0 \<Longrightarrow> CHECK_GL_ERROR drv s = Inr s"
  by (simp add: CHECK_GL_ERROR_def)

lemma issued_since_append:
  "native_calls s' = native_calls s @ new \<Longrightarrow> issued_since s s' = new"
  by (simp add: issued_since_def)

lemma rebound_simps [simp]:
  "native_calls (rebound target new s) = native_calls s @ new"
  "buffer_binding (rebound target new s) = (buffer_binding s)(target := 0)"
  "framebuffer_binding (rebound target new s) = framebuffer_binding s"
  "gdevice (rebound target new s) = gdevice s"
  by (simp_all add: rebound_def)

subsection \<open>Vertex and index buffers\<close>

lemma glBindBufferARB_twice:
  "glBindBufferARB target 0 (issue c (glBindBufferARB target buffer s)) =
     rebound target [BindBufferARB target buffer, c, BindBufferARB target 0] s"
  by (simp add: glBindBufferARB_def issue_def rebound_def)

lemma SetVertexBufferData_Inr:
  "SetVertexBufferData drv buffer size' data usage s = Inr s' \<Longrightarrow>
     s' = rebound GL_ARRAY_BUFFER_ARB [BindBufferARB GL_ARRAY_BUFFER_ARB buffer, BufferDataARB GL_ARRAY_BUFFER_ARB size' data usage, BindBufferARB GL_ARRAY_BUFFER_ARB 0] s"
  by (auto simp: SetVertexBufferData_def and_then_eq_Inr CHECK_GL_ERROR_Inr glBufferDataARB_def
      glBufferSubDataARB_def glBindBufferARB_twice)

lemma SetVertexBufferData_quiet:
  "\<forall>calls. glGetError_result drv calls = 0 \<Longrightarrow> \<exists>s'. SetVertexBufferData drv buffer size' data usage s = Inr s'"
  by (simp add: SetVertexBufferData_def CHECK_GL_ERROR_quiet)

lemma SetVertexBufferSubData_Inr:
  "SetVertexBufferSubData drv buffer offset size' data s = Inr s' \<Longrightarrow>
     s' = rebound GL_ARRAY_BUFFER_ARB [BindBufferARB GL_ARRAY_BUFFER_ARB buffer, BufferSubDataARB GL_ARRAY_BUFFER_ARB offset size' data, BindBufferARB GL_ARRAY_BUFFER_ARB 0] s"
  by (auto simp: SetVertexBufferSubData_def and_then_eq_Inr CHECK_GL_ERROR_Inr glBufferDataARB_def
      glBufferSubDataARB_def glBindBufferARB_twice)

lemma SetVertexBufferSubData_quiet:
  "\<forall>calls. glGetError_result drv calls = 0 \<Longrightarrow> \<exists>s'. SetVertexBufferSubData drv buffer offset size' data s = Inr s'"
  by (simp add: SetVertexBufferSubData_def CHECK_GL_ERROR_quiet)

lemma MapVertexBuffer_Inr:
  "MapVertexBuffer drv buffer access s = Inr (result, s') \<Longrightarrow>
     s' = rebound GL_ARRAY_BUFFER_ARB [BindBufferARB GL_ARRAY_BUFFER_ARB buffer, MapBufferARB GL_ARRAY_BUFFER_ARB access, BindBufferARB GL_ARRAY_BUFFER_ARB 0] s"
  by (auto simp: MapVertexBuffer_def and_then_eq_Inr CHECK_GL_ERROR_Inr glMapBufferARB_def
      glUnmapBufferARB_def Let_def glBindBufferARB_twice split: prod.splits)

lemma MapVertexBuffer_quiet:
  "\<forall>calls. glGetError_result drv calls = 0 \<Longrightarrow> \<exists>result s'. MapVertexBuffer drv buffer access s = Inr (result, s')"
  by (simp add: MapVertexBuffer_def CHECK_GL_ERROR_quiet Let_def split: prod.splits)

lemma UnmapVertexBuffer_Inr:
  "UnmapVertexBuffer drv buffer s = Inr (result, s') \<Longrightarrow>
     s' = rebound GL_ARRAY_BUFFER_ARB [BindBufferARB GL_ARRAY_BUFFER_ARB buffer, UnmapBufferARB GL_ARRAY_BUFFER_ARB, BindBufferARB GL_ARRAY_BUFFER_ARB 0] s"
  by (auto simp: UnmapVertexBuffer_def and_then_eq_Inr CHECK_GL_ERROR_Inr glMapBufferARB_def
      glUnmapBufferARB_def Let_def glBindBufferARB_twice split: prod.splits)

lemma UnmapVertexBuffer_quiet:
  "\<forall>calls. glGetError_result drv calls = 0 \<Longrightarrow> \<exists>result s'. UnmapVertexBuffer drv buffer s = Inr (result, s')"
  by (simp add: UnmapVertexBuffer_def CHECK_GL_ERROR_quiet Let_def split: prod.splits)

lemma SetIndexBufferData_Inr:
  "SetIndexBufferData drv buffer size' data usage s = Inr s' \<Longrightarrow>
     s' = rebound GL_ELEMENT_ARRAY_BUFFER_ARB [BindBufferARB GL_ELEMENT_ARRAY_BUFFER_ARB buffer, BufferDataARB GL_ELEMENT_ARRAY_BUFFER_ARB size' data usage, BindBufferARB GL_ELEMENT_ARRAY_BUFFER_ARB 0] s"
  by (auto simp: SetIndexBufferData_def and_then_eq_Inr CHECK_GL_ERROR_Inr glBufferDataARB_def
      glBufferSubDataARB_def glBindBufferARB_twice)

lemma SetIndexBufferData_quiet:
  "\<forall>calls. glGetError_result drv calls = 0 \<Longrightarrow> \<exists>s'. SetIndexBufferData drv buffer size' data usage s = Inr s'"
  by (simp add: SetIndexBufferData_def CHECK_GL_ERROR_quiet)

lemma SetIndexBufferSubData_Inr:
  "SetIndexBufferSubData drv buffer offset size' data s = Inr s' \<Longrightarrow>
     s' = rebound GL_ELEMENT_ARRAY_BUFFER_ARB [BindBufferARB GL_ELEMENT_ARRAY_BUFFER_ARB buffer, BufferSubDataARB GL_ELEMENT_ARRAY_BUFFER_ARB offset size' data, BindBufferARB GL_ELEMENT_ARRAY_BUFFER_ARB 0] s"
  by (auto simp: SetIndexBufferSubData_def and_then_eq_Inr CHECK_GL_ERROR_Inr glBufferDataARB_def
      glBufferSubDataARB_def glBindBufferARB_twice)

lemma SetIndexBufferSubData_quiet:
  "\<forall>calls. glGetError_result drv calls = 0 \<Longrightarrow> \<exists>s'. SetIndexBufferSubData drv buffer offset size' data s = Inr s'"
  by (simp add: SetIndexBufferSubData_def CHECK_GL_ERROR_quiet)

lemma MapIndexBuffer_Inr:
  "MapIndexBuffer drv buffer access s = Inr (result, s') \<Longrightarrow>
     s' = rebound GL_ELEMENT_ARRAY_BUFFER_ARB [BindBufferARB GL_ELEMENT_ARRAY_BUFFER_ARB buffer, MapBufferARB GL_ELEMENT_ARRAY_BUFFER_ARB access, BindBufferARB GL_ELEMENT_ARRAY_BUFFER_ARB 0] s"
  by (auto simp: MapIndexBuffer_def and_then_eq_Inr CHECK_GL_ERROR_Inr glMapBufferARB_def
      glUnmapBufferARB_def Let_def glBindBufferARB_twice split: prod.splits)

lemma MapIndexBuffer_quiet:
  "\<forall>calls. glGetError_result drv calls = 0 \<Longrightarrow> \<exists>result s'. MapIndexBuffer drv buffer access s = Inr (result, s')"
  by (simp add: MapIndexBuffer_def CHECK_GL_ERROR_quiet Let_def split: prod.splits)

lemma UnmapIndexBuffer_Inr:
  "UnmapIndexBuffer drv buffer s = Inr (result, s') \<Longrightarrow>
     s' = rebound GL_ELEMENT_ARRAY_BUFFER_ARB [BindBufferARB GL_ELEMENT_ARRAY_BUFFER_ARB buffer, UnmapBufferARB GL_ELEMENT_ARRAY_BUFFER_ARB, BindBufferARB GL_ELEMENT_ARRAY_BUFFER_ARB 0] s"
  by (auto simp: UnmapIndexBuffer_def and_then_eq_Inr CHECK_GL_ERROR_Inr glMapBufferARB_def
      glUnmapBufferARB_def Let_def glBindBufferARB_twice split: prod.splits)

lemma UnmapIndexBuffer_quiet:
  "\<forall>calls. glGetError_result drv calls = 0 \<Longrightarrow> \<exists>result s'. UnmapIndexBuffer drv buffer s = Inr (result, s')"
  by (simp add: UnmapIndexBuffer_def CHECK_GL_ERROR_quiet Let_def split: prod.splits)

text \<open>
  Claim C10. Each of the eight buffer data operations, when it returns, has issued
  the binding of the buffer to its target, its one call of work and the binding of 0
  to the same target, in this order and nothing else: the binding of that target is 0
  afterwards, and the rest of the state is as before. Each of them returns when the
  native side reports no error.
\<close>

theorem buffer_operations_rebind_zero:
  "(\<forall>s'. SetVertexBufferData drv buffer size' data usage s = Inr s' \<longrightarrow>
      buffer_binding s' GL_ARRAY_BUFFER_ARB = 0 \<and>
      s' = rebound GL_ARRAY_BUFFER_ARB [BindBufferARB GL_ARRAY_BUFFER_ARB buffer, BufferDataARB GL_ARRAY_BUFFER_ARB size' data usage, BindBufferARB GL_ARRAY_BUFFER_ARB 0] s) \<and>
   (\<forall>s'. SetVertexBufferSubData drv buffer offset size' data s = Inr s' \<longrightarrow>
      buffer_binding s' GL_ARRAY_BUFFER_ARB = 0 \<and>
      s' = rebound GL_ARRAY_BUFFER_ARB [BindBufferARB GL_ARRAY_BUFFER_ARB buffer, BufferSubDataARB GL_ARRAY_BUFFER_ARB offset size' data, BindBufferARB GL_ARRAY_BUFFER_ARB 0] s) \<and>
   (\<forall>result s'. MapVertexBuffer drv buffer access s = Inr (result, s') \<longrightarrow>
      buffer_binding s' GL_ARRAY_BUFFER_ARB = 0 \<and>
      s' = rebound GL_ARRAY_BUFFER_ARB [BindBufferARB GL_ARRAY_BUFFER_ARB buffer, MapBufferARB GL_ARRAY_BUFFER_ARB access, BindBufferARB GL_ARRAY_BUFFER_ARB 0] s) \<and>
   (\<forall>result s'. UnmapVertexBuffer drv buffer s = Inr (result, s') \<longrightarrow>
      buffer_binding s' GL_ARRAY_BUFFER_ARB = 0 \<and>
      s' = rebound GL_ARRAY_BUFFER_ARB [BindBufferARB GL_ARRAY_BUFFER_ARB buffer, UnmapBufferARB GL_ARRAY_BUFFER_ARB, BindBufferARB GL_ARRAY_BUFFER_ARB 0] s) \<and>
   (\<forall>s'. SetIndexBufferData drv buffer size' data usage s = Inr s' \<longrightarrow>
      buffer_binding s' GL_ELEMENT_ARRAY_BUFFER_ARB = 0 \<and>
      s' = rebound GL_ELEMENT_ARRAY_BUFFER_ARB [BindBufferARB GL_ELEMENT_ARRAY_BUFFER_ARB buffer, BufferDataARB GL_ELEMENT_ARRAY_BUFFER_ARB size' data usage, BindBufferARB GL_ELEMENT_ARRAY_BUFFER_ARB 0] s) \<and>
   (\<forall>s'. SetIndexBufferSubData drv buffer offset size' data s = Inr s' \<longrightarrow>
      buffer_binding s' GL_ELEMENT_ARRAY_BUFFER_ARB = 0 \<and>
      s' = rebound GL_ELEMENT_ARRAY_BUFFER_ARB [BindBufferARB GL_ELEMENT_ARRAY_BUFFER_ARB buffer, BufferSubDataARB GL_ELEMENT_ARRAY_BUFFER_ARB offset size' data, BindBufferARB GL_ELEMENT_ARRAY_BUFFER_ARB 0] s) \<and>
   (\<forall>result s'. MapIndexBuffer drv buffer access s = Inr (result, s') \<longrightarrow>
      buffer_binding s' GL_ELEMENT_ARRAY_BUFFER_ARB = 0 \<and>
      s' = rebound GL_ELEMENT_ARRAY_BUFFER_ARB [BindBufferARB GL_ELEMENT_ARRAY_BUFFER_ARB buffer, MapBufferARB GL_ELEMENT_ARRAY_BUFFER_ARB access, BindBufferARB GL_ELEMENT_ARRAY_BUFFER_ARB 0] s) \<and>
   (\<forall>result s'. UnmapIndexBuffer drv buffer s = Inr (result, s') \<longrightarrow>
      buffer_binding s' GL_ELEMENT_ARRAY_BUFFER_ARB = 0 \<and>
      s' = rebound GL_ELEMENT_ARRAY_BUFFER_ARB [BindBufferARB GL_ELEMENT_ARRAY_BUFFER_ARB buffer, UnmapBufferARB GL_ELEMENT_ARRAY_BUFFER_ARB, BindBufferARB GL_ELEMENT_ARRAY_BUFFER_ARB 0] s) \<and>
   ((\<forall>calls. glGetError_result drv calls = 0) \<longrightarrow>
      (\<exists>s'. SetVertexBufferData drv buffer size' data usage s = Inr s') \<and>
      (\<exists>s'. SetVertexBufferSubData drv buffer offset size' data s = Inr s') \<and>
      (\<exists>result s'. MapVertexBuffer drv buffer access s = Inr (result, s')) \<and>
      (\<exists>result s'. UnmapVertexBuffer drv buffer s = Inr (result, s')) \<and>
      (\<exists>s'. SetIndexBufferData drv buffer size' data usage s = Inr s') \<and>
      (\<exists>s'. SetIndexBufferSubData drv buffer offset size' data s = Inr s') \<and>
      (\<exists>result s'. MapIndexBuffer drv buffer access s = Inr (result, s')) \<and>
      (\<exists>result s'. UnmapIndexBuffer drv buffer s = Inr (result, s')))"
proof (intro conjI allI impI)
qed (simp_all add: SetVertexBufferData_quiet SetVertexBufferSubData_quiet MapVertexBuffer_quiet UnmapVertexBuffer_quiet SetIndexBufferData_quiet SetIndexBufferSubData_quiet MapIndexBuffer_quiet UnmapIndexBuffer_quiet,
  (drule SetVertexBufferData_Inr SetVertexBufferSubData_Inr MapVertexBuffer_Inr UnmapVertexBuffer_Inr SetIndexBufferData_Inr SetIndexBufferSubData_Inr MapIndexBuffer_Inr UnmapIndexBuffer_Inr, simp)+)

theorem buffer_operations_rebind_zero_witness:
  "(\<exists>s'. SetVertexBufferData quiet_driver 5 64 4096 0 initial_state = Inr s' \<and>
         buffer_binding s' GL_ARRAY_BUFFER_ARB = 0 \<and>
         native_calls s' = [BindBufferARB GL_ARRAY_BUFFER_ARB 5,
                            BufferDataARB GL_ARRAY_BUFFER_ARB 64 4096 0,
                            BindBufferARB GL_ARRAY_BUFFER_ARB 0]) \<and>
   (\<exists>s'. SetVertexBufferSubData quiet_driver 5 16 64 4096 initial_state = Inr s' \<and>
         buffer_binding s' GL_ARRAY_BUFFER_ARB = 0) \<and>
   (\<exists>result s'. MapVertexBuffer quiet_driver 5 1 initial_state = Inr (result, s') \<and>
         buffer_binding s' GL_ARRAY_BUFFER_ARB = 0) \<and>
   (\<exists>result s'. UnmapVertexBuffer quiet_driver 5 initial_state = Inr (result, s') \<and>
         buffer_binding s' GL_ARRAY_BUFFER_ARB = 0) \<and>
   (\<exists>s'. SetIndexBufferData quiet_driver 5 64 4096 0 initial_state = Inr s' \<and>
         buffer_binding s' GL_ELEMENT_ARRAY_BUFFER_ARB = 0) \<and>
   (\<exists>s'. SetIndexBufferSubData quiet_driver 5 16 64 4096 initial_state = Inr s' \<and>
         buffer_binding s' GL_ELEMENT_ARRAY_BUFFER_ARB = 0) \<and>
   (\<exists>result s'. MapIndexBuffer quiet_driver 5 1 initial_state = Inr (result, s') \<and>
         buffer_binding s' GL_ELEMENT_ARRAY_BUFFER_ARB = 0) \<and>
   (\<exists>result s'. UnmapIndexBuffer quiet_driver 5 initial_state = Inr (result, s') \<and>
         buffer_binding s' GL_ELEMENT_ARRAY_BUFFER_ARB = 0)"
proof -
  have quiet: "\<forall>calls. glGetError_result quiet_driver calls = 0"
    by (simp add: quiet_driver_def)
  note c10 = buffer_operations_rebind_zero
    [where drv = quiet_driver and buffer = 5 and size' = 64 and data = 4096 and usage = 0
       and offset = 16 and access = 1 and s = initial_state]
  from c10 quiet obtain s1 where
    s1: "SetVertexBufferData quiet_driver 5 64 4096 0 initial_state = Inr s1"
    by blast
  from c10 s1 have "buffer_binding s1 GL_ARRAY_BUFFER_ARB = 0"
    and "s1 = rebound GL_ARRAY_BUFFER_ARB
                [BindBufferARB GL_ARRAY_BUFFER_ARB 5, BufferDataARB GL_ARRAY_BUFFER_ARB 64 4096 0,
                 BindBufferARB GL_ARRAY_BUFFER_ARB 0] initial_state"
    by blast+
  with s1 have first: "\<exists>s'. SetVertexBufferData quiet_driver 5 64 4096 0 initial_state = Inr s' \<and>
         buffer_binding s' GL_ARRAY_BUFFER_ARB = 0 \<and>
         native_calls s' = [BindBufferARB GL_ARRAY_BUFFER_ARB 5,
                            BufferDataARB GL_ARRAY_BUFFER_ARB 64 4096 0,
                            BindBufferARB GL_ARRAY_BUFFER_ARB 0]"
    by (simp add: initial_state_def)
  from c10 quiet have "\<exists>s'. SetVertexBufferSubData quiet_driver 5 16 64 4096 initial_state = Inr s' \<and>
         buffer_binding s' GL_ARRAY_BUFFER_ARB = 0"
    by blast
  moreover from c10 quiet
  have "\<exists>result s'. MapVertexBuffer quiet_driver 5 1 initial_state = Inr (result, s') \<and>
         buffer_binding s' GL_ARRAY_BUFFER_ARB = 0"
    by blast
  moreover from c10 quiet
  have "\<exists>result s'. UnmapVertexBuffer quiet_driver 5 initial_state = Inr (result, s') \<and>
         buffer_binding s' GL_ARRAY_BUFFER_ARB = 0"
    by blast
  moreover from c10 quiet
  have "\<exists>s'. SetIndexBufferData quiet_driver 5 64 4096 0 initial_state = Inr s' \<and>
         buffer_binding s' GL_ELEMENT_ARRAY_BUFFER_ARB = 0"
    by blast
  moreover from c10 quiet
  have "\<exists>s'. SetIndexBufferSubData quiet_driver 5 16 64 4096 initial_state = Inr s' \<and>
         buffer_binding s' GL_ELEMENT_ARRAY_BUFFER_ARB = 0"
    by blast
  moreover from c10 quiet
  have "\<exists>result s'. MapIndexBuffer quiet_driver 5 1 initial_state = Inr (result, s') \<and>
         buffer_binding s' GL_ELEMENT_ARRAY_BUFFER_ARB = 0"
    by blast
  moreover from c10 quiet
  have "\<exists>result s'. UnmapIndexBuffer quiet_driver 5 initial_state = Inr (result, s') \<and>
         buffer_binding s' GL_ELEMENT_ARRAY_BUFFER_ARB = 0"
    by blast
  ultimately show ?thesis
    using first by blast
qed

subsection \<open>Device creation\<close>

lemma NewDevice_open_window_calls:
  "native_calls (snd (NewDevice_open_window drv p s)) =
     native_calls s @ [GlfwInit, GlfwOpenWindow (m_DisplayWidth p) (m_DisplayHeight p) 8 8 8 8 32 0 GLFW_WINDOW]"
  by (simp add: NewDevice_open_window_def glfwOpenWindow_def glfwInit_def Let_def)

lemma NewDevice_window_opened:
  "fst (NewDevice_open_window drv p s) \<noteq> 0 \<Longrightarrow> NewDevice drv (Some p) s = Inr (h, s') \<Longrightarrow>
     h = HDevice_gdevice \<and> m_DisplayWidth (gdevice s') = m_DisplayWidth p \<and>
     m_DisplayHeight (gdevice s') = m_DisplayHeight p"
  by (auto simp: NewDevice_def NewDevice_open_window_def Let_def and_then_eq_Inr CHECK_GL_ERROR_Inr
      glGetString_def split: prod.splits if_splits)

text \<open>
  Claim C3. When the window cannot be opened (\<^verbatim>\<open>glfwOpenWindow\<close> returns 0),
  \<^verbatim>\<open>NewDevice\<close> returns the null handle; the state it leaves differs from the state it
  was called in only by the three native calls issued: \<^verbatim>\<open>glfwInit\<close>, the attempt to open
  the window, and \<^verbatim>\<open>glfwTerminate\<close>. The global device, and with it the stored display
  width and height, is as before. A null handle is returned in no other case.
\<close>

theorem NewDevice_no_window:
  "(fst (NewDevice_open_window drv p s) = 0 \<longrightarrow>
      NewDevice drv (Some p) s =
        Inr (HDevice_null,
             s\<lparr>native_calls := native_calls s @
                  [GlfwInit,
                   GlfwOpenWindow (m_DisplayWidth p) (m_DisplayHeight p) 8 8 8 8 32 0 GLFW_WINDOW,
                   GlfwTerminate]\<rparr>)) \<and>
   (NewDevice drv (Some p) s = Inr (HDevice_null, s') \<longrightarrow>
      fst (NewDevice_open_window drv p s) = 0 \<and>
      gdevice s' = gdevice s \<and>
      GetWindowWidth s' = GetWindowWidth s \<and> GetWindowHeight s' = GetWindowHeight s \<and>
      buffer_binding s' = buffer_binding s \<and> framebuffer_binding s' = framebuffer_binding s)"
proof (intro conjI impI)
  assume "fst (NewDevice_open_window drv p s) = 0"
  then show "NewDevice drv (Some p) s =
        Inr (HDevice_null,
             s\<lparr>native_calls := native_calls s @
                  [GlfwInit,
                   GlfwOpenWindow (m_DisplayWidth p) (m_DisplayHeight p) 8 8 8 8 32 0 GLFW_WINDOW,
                   GlfwTerminate]\<rparr>)"
    by (simp add: NewDevice_def NewDevice_open_window_def glfwOpenWindow_def glfwInit_def
        glfwTerminate_def issue_def Let_def)
next
  assume null: "NewDevice drv (Some p) s = Inr (HDevice_null, s')"
  show closed: "fst (NewDevice_open_window drv p s) = 0"
  proof (rule ccontr)
    assume "fst (NewDevice_open_window drv p s) \<noteq> 0"
    from NewDevice_window_opened [OF this null] show False by simp
  qed
  then have "s' = s\<lparr>native_calls := native_calls s @
                  [GlfwInit,
                   GlfwOpenWindow (m_DisplayWidth p) (m_DisplayHeight p) 8 8 8 8 32 0 GLFW_WINDOW,
                   GlfwTerminate]\<rparr>"
    using null
    by (simp add: NewDevice_def NewDevice_open_window_def glfwOpenWindow_def glfwInit_def
        glfwTerminate_def issue_def Let_def)
  then show "gdevice s' = gdevice s" "GetWindowWidth s' = GetWindowWidth s"
    "GetWindowHeight s' = GetWindowHeight s" "buffer_binding s' = buffer_binding s"
    "framebuffer_binding s' = framebuffer_binding s"
    by (simp_all add: GetWindowWidth_def GetWindowHeight_def)
qed

theorem NewDevice_no_window_witness:
  "\<exists>s'. NewDevice no_window_driver (Some example_params) initial_state = Inr (HDevice_null, s') \<and>
      native_calls s' = [GlfwInit, GlfwOpenWindow 960 540 8 8 8 8 32 0 GLFW_WINDOW, GlfwTerminate] \<and>
      gdevice s' = gdevice initial_state \<and>
      GetWindowWidth s' = 0 \<and> GetWindowHeight s' = 0 \<and>
      fst (NewDevice_open_window no_window_driver example_params initial_state) = 0"
proof -
  have closed: "fst (NewDevice_open_window no_window_driver example_params initial_state) = 0"
    by (simp add: NewDevice_open_window_def glfwOpenWindow_def Let_def no_window_driver_def)
  define s' where "s' = initial_state\<lparr>native_calls := native_calls initial_state @
                  [GlfwInit,
                   GlfwOpenWindow (m_DisplayWidth example_params) (m_DisplayHeight example_params)
                     8 8 8 8 32 0 GLFW_WINDOW,
                   GlfwTerminate]\<rparr>"
  note c3 = NewDevice_no_window [of no_window_driver example_params initial_state s']
  from c3 closed have null: "NewDevice no_window_driver (Some example_params) initial_state = Inr (HDevice_null, s')"
    by (simp add: s'_def)
  with c3 have same: "gdevice s' = gdevice initial_state" "GetWindowWidth s' = GetWindowWidth initial_state"
    "GetWindowHeight s' = GetWindowHeight initial_state"
    by blast+
  have "native_calls s' = [GlfwInit, GlfwOpenWindow 960 540 8 8 8 8 32 0 GLFW_WINDOW, GlfwTerminate]"
    by (simp add: s'_def initial_state_def example_params_def)
  moreover have "GetWindowWidth initial_state = 0" "GetWindowHeight initial_state = 0"
    by (simp_all add: GetWindowWidth_def GetWindowHeight_def initial_state_def)
  ultimately show ?thesis
    using null same closed by auto
qed

subsection \<open>Render targets\<close>

lemma DeleteRenderTarget_null_texture:
  "RenderTarget.m_Texture rt = None \<Longrightarrow> DeleteRenderTarget rt s = Inl AssertionFailed"
  by (simp add: DeleteRenderTarget_def DeleteTexture_def Let_def)

lemma NewTexture_Inr:
  "NewTexture drv s = Inr (texture, s') \<Longrightarrow> \<exists>t. texture = Some t"
  by (auto simp: NewTexture_def Let_def and_then_eq_Inr split: prod.splits)

lemma NewRenderTarget_texture:
  assumes "NewRenderTarget drv width height format s = Inr (rt, s')"
  shows "\<exists>t. RenderTarget.m_Texture rt = Some t"
proof -
  from assms obtain texture s1 where new: "NewTexture drv s = Inr (texture, s1)"
    by (auto simp: NewRenderTarget_def and_then_eq_Inr)
  then obtain t where t: "texture = Some t"
    using NewTexture_Inr by blast
  from assms new t show ?thesis
    by (auto simp: NewRenderTarget_def Let_def split_def and_then_eq_Inr)
qed

lemma NewTexture_quiet:
  "\<forall>calls. glGetError_result drv calls = 0 \<Longrightarrow> \<exists>t s'. NewTexture drv s = Inr (Some t, s')"
  by (simp add: NewTexture_def Let_def CHECK_GL_ERROR_quiet split: prod.splits)

lemma SetTextureData_quiet:
  "\<forall>calls. glGetError_result drv calls = 0 \<Longrightarrow>
     \<exists>s'. SetTextureData drv t mip_map width height TEXTURE_FORMAT_RGBA data data_size s = Inr s'"
  by (simp add: SetTextureData_def Let_def CHECK_GL_ERROR_quiet)

lemma NewRenderTarget_quiet:
  assumes quiet: "\<forall>calls. glGetError_result drv calls = 0"
  shows "\<exists>rt s'. NewRenderTarget drv width height format s = Inr (rt, s')"
proof -
  from NewTexture_quiet [OF quiet] obtain t s1 where t: "NewTexture drv s = Inr (Some t, s1)"
    by blast
  from SetTextureData_quiet [OF quiet] obtain s2 where
    s2: "SetTextureData drv t 0 (ucast width) (ucast height) TEXTURE_FORMAT_RGBA 0 0 s1 = Inr s2"
    by blast
  show ?thesis
    by (simp add: NewRenderTarget_def t s2 Let_def CHECK_GL_ERROR_quiet [OF quiet] split: prod.splits)
qed

text \<open>
  Claim C6. Every render target \<^verbatim>\<open>NewRenderTarget\<close> returns has a texture handle that
  is not null. For a render target with such a handle \<^verbatim>\<open>DeleteRenderTarget\<close> returns in
  every state, whatever framebuffer is bound, and issues exactly three calls, each
  releasing one native resource: the framebuffer, the renderbuffer and the texture.
\<close>

theorem DeleteRenderTarget_releases_three:
  "(RenderTarget.m_Texture rt = Some t \<longrightarrow>
     (\<exists>s'. DeleteRenderTarget rt s = Inr s' \<and>
        issued_since s s' =
          [DeleteFramebuffers [m_FboId rt], DeleteRenderbuffers [m_RboId rt],
           DeleteTextures [Texture.m_Texture t]] \<and>
        length (filter is_release (issued_since s s')) = 3 \<and>
        length (issued_since s s') = 3 \<and>
        buffer_binding s' = buffer_binding s \<and> gdevice s' = gdevice s)) \<and>
   (NewRenderTarget drv width height format s0 = Inr (rt, s) \<longrightarrow>
     (\<exists>t. RenderTarget.m_Texture rt = Some t))"
proof (intro conjI impI)
  assume "RenderTarget.m_Texture rt = Some t"
  then show "\<exists>s'. DeleteRenderTarget rt s = Inr s' \<and>
        issued_since s s' =
          [DeleteFramebuffers [m_FboId rt], DeleteRenderbuffers [m_RboId rt],
           DeleteTextures [Texture.m_Texture t]] \<and>
        length (filter is_release (issued_since s s')) = 3 \<and>
        length (issued_since s s') = 3 \<and>
        buffer_binding s' = buffer_binding s \<and> gdevice s' = gdevice s"
    by (simp add: DeleteRenderTarget_def DeleteTexture_def glDeleteFramebuffers_def
        glDeleteRenderbuffers_def glDeleteTextures_def issued_since_def Let_def)
next
  assume "NewRenderTarget drv width height format s0 = Inr (rt, s)"
  then show "\<exists>t. RenderTarget.m_Texture rt = Some t"
    by (rule NewRenderTarget_texture)
qed

theorem DeleteRenderTarget_releases_three_witness:
  "(\<exists>s'. DeleteRenderTarget example_target (EnableRenderTarget GetContext example_target initial_state) = Inr s' \<and>
      framebuffer_binding (EnableRenderTarget GetContext example_target initial_state) = m_FboId example_target \<and>
      issued_since (EnableRenderTarget GetContext example_target initial_state) s' =
        [DeleteFramebuffers [3], DeleteRenderbuffers [4], DeleteTextures [7]]) \<and>
   (\<exists>s'. DeleteRenderTarget example_target (DisableRenderTarget GetContext example_target initial_state) = Inr s' \<and>
      framebuffer_binding (DisableRenderTarget GetContext example_target initial_state) \<noteq> m_FboId example_target \<and>
      issued_since (DisableRenderTarget GetContext example_target initial_state) s' =
        [DeleteFramebuffers [3], DeleteRenderbuffers [4], DeleteTextures [7]]) \<and>
   (\<exists>rt s1 s'. NewRenderTarget quiet_driver 64 64 TEXTURE_FORMAT_RGBA initial_state = Inr (rt, s1) \<and>
      DeleteRenderTarget rt s1 = Inr s' \<and> length (filter is_release (issued_since s1 s')) = 3 \<and>
      length (issued_since s1 s') = 3)"
proof -
  have t: "RenderTarget.m_Texture example_target = Some \<lparr>Texture.m_Texture = 7\<rparr>"
    by (simp add: example_target_def)
  have bound: "framebuffer_binding (EnableRenderTarget GetContext example_target initial_state) = m_FboId example_target"
    "framebuffer_binding (DisableRenderTarget GetContext example_target initial_state) \<noteq> m_FboId example_target"
    by (simp_all add: EnableRenderTarget_def DisableRenderTarget_def glBindFramebuffer_def example_target_def)
  have fields: "m_FboId example_target = 3" "m_RboId example_target = 4"
    by (simp_all add: example_target_def)
  from DeleteRenderTarget_releases_three
         [of example_target "\<lparr>Texture.m_Texture = 7\<rparr>" "EnableRenderTarget GetContext example_target initial_state"] t
  obtain s1 where
    s1: "DeleteRenderTarget example_target (EnableRenderTarget GetContext example_target initial_state) = Inr s1"
      "issued_since (EnableRenderTarget GetContext example_target initial_state) s1 =
         [DeleteFramebuffers [m_FboId example_target], DeleteRenderbuffers [m_RboId example_target],
          DeleteTextures [Texture.m_Texture \<lparr>Texture.m_Texture = 7\<rparr>]]"
    by blast
  from DeleteRenderTarget_releases_three
         [of example_target "\<lparr>Texture.m_Texture = 7\<rparr>" "DisableRenderTarget GetContext example_target initial_state"] t
  obtain s2 where
    s2: "DeleteRenderTarget example_target (DisableRenderTarget GetContext example_target initial_state) = Inr s2"
      "issued_since (DisableRenderTarget GetContext example_target initial_state) s2 =
         [DeleteFramebuffers [m_FboId example_target], DeleteRenderbuffers [m_RboId example_target],
          DeleteTextures [Texture.m_Texture \<lparr>Texture.m_Texture = 7\<rparr>]]"
    by blast
  have "\<forall>calls. glGetError_result quiet_driver calls = 0"
    by (simp add: quiet_driver_def)
  from NewRenderTarget_quiet [OF this] obtain rt s3 where
    made: "NewRenderTarget quiet_driver 64 64 TEXTURE_FORMAT_RGBA initial_state = Inr (rt, s3)"
    by blast
  from DeleteRenderTarget_releases_three
         [of rt _ s3 quiet_driver 64 64 TEXTURE_FORMAT_RGBA initial_state] made
  obtain t3 where t3: "RenderTarget.m_Texture rt = Some t3"
    by blast
  from DeleteRenderTarget_releases_three [of rt t3 s3] t3
  obtain s4 where
    s4: "DeleteRenderTarget rt s3 = Inr s4" "length (filter is_release (issued_since s3 s4)) = 3"
      "length (issued_since s3 s4) = 3"
    by blast
  have third: "\<exists>rt s1 s'. NewRenderTarget quiet_driver 64 64 TEXTURE_FORMAT_RGBA initial_state = Inr (rt, s1) \<and>
      DeleteRenderTarget rt s1 = Inr s' \<and> length (filter is_release (issued_since s1 s')) = 3 \<and>
      length (issued_since s1 s') = 3"
    using made s4 by blast
  from s1 s2 bound third show ?thesis
    by (simp add: fields)
qed

subsection \<open>Enabling and disabling a vertex declaration\<close>

lemma for_loop_issues_from:
  "(\<forall>i s s'. i < n \<longrightarrow> body i s = Inr s' \<longrightarrow> s' = s\<lparr>native_calls := native_calls s @ new i\<rparr>) \<Longrightarrow>
   for_loop i n body s = Inr s' \<Longrightarrow>
   s' = s\<lparr>native_calls := native_calls s @ concat (map new [i..<n])\<rparr>"
proof (induction i n body s rule: for_loop.induct)
  case (1 i n body s)
  show ?case
  proof (cases "i < n")
    case False
    with "1.prems"(2) show ?thesis
      by (simp add: for_loop.simps [of i n body s])
  next
    case True
    from "1.prems"(2) True obtain s1 where
      s1: "body i s = Inr s1" and rest: "for_loop (Suc i) n body s1 = Inr s'"
      by (auto simp: for_loop.simps [of i n body s] split: sum.splits)
    from "1.prems"(1) True s1 have s1_eq: "s1 = s\<lparr>native_calls := native_calls s @ new i\<rparr>"
      by blast
    from "1.IH" [OF True s1 "1.prems"(1) rest]
    have "s' = s1\<lparr>native_calls := native_calls s1 @ concat (map new [Suc i..<n])\<rparr>" .
    with s1_eq True show ?thesis
      by (simp add: upt_conv_Cons)
  qed
qed

lemma for_loop_issues:
  assumes "\<And>i s s'. body i s = Inr s' \<Longrightarrow> s' = s\<lparr>native_calls := native_calls s @ new i\<rparr>"
    and "for_loop i n body s = Inr s'"
  shows "s' = s\<lparr>native_calls := native_calls s @ concat (map new [i..<n])\<rparr>"
proof (rule for_loop_issues_from [of n body new i s s'])
  show "\<forall>i s s'. i < n \<longrightarrow> body i s = Inr s' \<longrightarrow> s' = s\<lparr>native_calls := native_calls s @ new i\<rparr>"
    using assms(1) by blast
  show "for_loop i n body s = Inr s'"
    by (rule assms(2))
qed

lemma for_loop_returns:
  assumes body: "\<And>i s. i < n \<Longrightarrow> \<exists>s'. body i s = Inr s'"
  shows "\<exists>s'. for_loop i n body s = Inr s'"
proof (induction "n - i" arbitrary: i s)
  case 0
  then show ?case by (simp add: for_loop.simps [of i n body s])
next
  case (Suc d)
  then have lt: "i < n" by simp
  from body [OF lt] obtain s1 where s1: "body i s = Inr s1" by blast
  from Suc have "d = n - Suc i" by simp
  from Suc.hyps(1) [OF this] obtain s' where "for_loop (Suc i) n body s1 = Inr s'" by blast
  with lt s1 show ?case
    by (simp add: for_loop.simps [of i n body s])
qed

lemma enable_calls_counts:
  "length (filter is_enable_attribute (concat (map (enable_calls vd) xs))) = length xs"
  "length (filter is_set_pointer (concat (map (enable_calls vd) xs))) = length xs"
  "filter is_disable_attribute (concat (map (enable_calls vd) xs)) = []"
  by (induction xs) (simp_all add: enable_calls_def)

lemma disable_calls_counts:
  "filter is_disable_attribute (map DisableVertexAttribArray xs) = map DisableVertexAttribArray xs"
  "filter is_set_pointer (map DisableVertexAttribArray xs) = []"
  "filter is_enable_attribute (map DisableVertexAttribArray xs) = []"
  by (induction xs) simp_all

lemma EnableVertexDeclaration_Inr:
  assumes "EnableVertexDeclaration drv context (Some vd) vertex_buffer s = Inr s'"
  shows "s' = s\<lparr>native_calls := native_calls s @
                  BindBufferARB GL_ARRAY_BUFFER vertex_buffer #
                  concat (map (enable_calls vd) [0..<m_StreamCount vd]),
                buffer_binding := (buffer_binding s)(GL_ARRAY_BUFFER := vertex_buffer)\<rparr>"
proof -
  define body where "body = (\<lambda>i s.
               and_then (CHECK_GL_ERROR drv (glEnableVertexAttribArray (m_Index (m_Streams vd i)) s)) (\<lambda>s'.
               CHECK_GL_ERROR drv
                 (glVertexAttribPointer
                    (m_Index (m_Streams vd i))
                    (m_Size (m_Streams vd i))
                    (m_Type (m_Streams vd i))
                    False
                    (m_Stride vd)
                    (BUFFER_OFFSET (m_Offset (m_Streams vd i))) s')))"
  have body: "s' = s\<lparr>native_calls := native_calls s @ enable_calls vd i\<rparr>"
    if "body i s = Inr s'" for i s s'
    using that
    by (auto simp: body_def and_then_eq_Inr CHECK_GL_ERROR_Inr glEnableVertexAttribArray_def
        glVertexAttribPointer_def issue_def enable_calls_def)
  from assms obtain s1 where
    s1: "s1 = glBindBufferARB GL_ARRAY_BUFFER vertex_buffer s"
    and loop: "for_loop 0 (m_StreamCount vd) body s1 = Inr s'"
    by (auto simp: EnableVertexDeclaration_def and_then_eq_Inr CHECK_GL_ERROR_Inr body_def
        split: if_splits)
  from for_loop_issues [of body "enable_calls vd", OF body loop]
  show ?thesis
    by (simp add: s1 glBindBufferARB_def issue_def)
qed

lemma DisableVertexDeclaration_Inr:
  assumes "DisableVertexDeclaration drv context (Some vd) s = Inr s'"
  shows "s' = s\<lparr>native_calls := native_calls s @
                  map DisableVertexAttribArray [0..<m_StreamCount vd] @
                  [BindBufferARB GL_ARRAY_BUFFER_ARB 0, BindBufferARB GL_ELEMENT_ARRAY_BUFFER_ARB 0],
                buffer_binding := (\<lambda>target. 0)\<rparr>"
proof -
  define body where "body = (\<lambda>i s. CHECK_GL_ERROR drv (glDisableVertexAttribArray i s))"
  have body: "s' = s\<lparr>native_calls := native_calls s @ [DisableVertexAttribArray i]\<rparr>"
    if "body i s = Inr s'" for i s s'
    using that
    by (auto simp: body_def CHECK_GL_ERROR_Inr glDisableVertexAttribArray_def issue_def)
  from assms obtain s1 where
    loop: "for_loop 0 (m_StreamCount vd) body s = Inr s1"
    and s': "s' = glBindBufferARB GL_ELEMENT_ARRAY_BUFFER_ARB 0 (glBindBufferARB GL_ARRAY_BUFFER_ARB 0 s1)"
    by (auto simp: DisableVertexDeclaration_def and_then_eq_Inr CHECK_GL_ERROR_Inr body_def
        split: if_splits)
  have both: "(\<lambda>target. 0) = ((buffer_binding s)(GL_ARRAY_BUFFER_ARB := 0, GL_ELEMENT_ARRAY_BUFFER_ARB := 0))"
  proof
    fix target show "0 = ((buffer_binding s)(GL_ARRAY_BUFFER_ARB := 0, GL_ELEMENT_ARRAY_BUFFER_ARB := 0)) target"
      by (cases target) simp_all
  qed
  have flat: "concat (map (\<lambda>i. [DisableVertexAttribArray i]) xs) = map DisableVertexAttribArray xs" for xs
    by (induction xs) simp_all
  from for_loop_issues [of body "\<lambda>i. [DisableVertexAttribArray i]", OF body loop]
  show ?thesis
    by (simp add: s' glBindBufferARB_def issue_def both flat)
qed

lemma EnableVertexDeclaration_returns:
  assumes "\<forall>calls. glGetError_result drv calls = 0" "context \<noteq> None" "vertex_buffer \<noteq> 0"
  shows "\<exists>s'. EnableVertexDeclaration drv context (Some vd) vertex_buffer s = Inr s'"
  using assms
  by (simp add: EnableVertexDeclaration_def CHECK_GL_ERROR_quiet for_loop_returns)

lemma DisableVertexDeclaration_returns:
  assumes "\<forall>calls. glGetError_result drv calls = 0" "context \<noteq> None"
  shows "\<exists>s'. DisableVertexDeclaration drv context (Some vd) s = Inr s'"
proof -
  from for_loop_returns [of "m_StreamCount vd" "\<lambda>i s. CHECK_GL_ERROR drv (glDisableVertexAttribArray i s)" 0 s]
  obtain s1 where "for_loop 0 (m_StreamCount vd) (\<lambda>i s. CHECK_GL_ERROR drv (glDisableVertexAttribArray i s)) s = Inr s1"
    using assms(1) by (auto simp: CHECK_GL_ERROR_quiet)
  with assms show ?thesis
    by (simp add: DisableVertexDeclaration_def CHECK_GL_ERROR_quiet)
qed

lemma NewVertexDeclaration_indices:
  assumes "NewVertexDeclaration capacity fresh element count = Inr vd"
  shows "map (\<lambda>i. m_Index (m_Streams vd i)) [0..<m_StreamCount vd] = [0..<m_StreamCount vd]"
proof -
  note s = NewVertexDeclaration_Inr_streams [OF assms]
  have "map (\<lambda>i. m_Index (m_Streams vd i)) [0..<count] = map (\<lambda>i. i) [0..<count]"
    by (rule map_cong) (simp_all add: s(3) declared_stream_def)
  then show ?thesis by (simp add: s(1))
qed
text \<open>
  Claim C2. For a declaration with \<open>n\<close> streams, \<^verbatim>\<open>EnableVertexDeclaration\<close>, when it
  returns, has bound the vertex buffer and then issued, stream by stream, one
  enable-attribute call and one set-pointer call: \<open>n\<close> of each.
  \<^verbatim>\<open>DisableVertexDeclaration\<close>, when it returns, has issued \<open>n\<close> disable-attribute
  calls, for the indices \<open>0..n-1\<close>, then unbound both buffer targets; it issues no
  set-pointer call. Both return when the native side reports no error, the context is
  not null and (for enabling) the buffer is not 0. In a declaration made by
  \<^verbatim>\<open>NewVertexDeclaration\<close> stream \<open>i\<close> has index \<open>i\<close>, so the attributes disabled are the
  attributes enabled.
\<close>

theorem vertex_declaration_enable_disable:
  "(EnableVertexDeclaration drv context (Some vd) vertex_buffer s = Inr s' \<longrightarrow>
      issued_since s s' =
        BindBufferARB GL_ARRAY_BUFFER vertex_buffer # concat (map (enable_calls vd) [0..<m_StreamCount vd]) \<and>
      length (filter is_enable_attribute (issued_since s s')) = m_StreamCount vd \<and>
      length (filter is_set_pointer (issued_since s s')) = m_StreamCount vd \<and>
      length (filter is_disable_attribute (issued_since s s')) = 0) \<and>
   (DisableVertexDeclaration drv context (Some vd) s = Inr s'' \<longrightarrow>
      issued_since s s'' =
        map DisableVertexAttribArray [0..<m_StreamCount vd] @
        [BindBufferARB GL_ARRAY_BUFFER_ARB 0, BindBufferARB GL_ELEMENT_ARRAY_BUFFER_ARB 0] \<and>
      length (filter is_disable_attribute (issued_since s s'')) = m_StreamCount vd \<and>
      length (filter is_set_pointer (issued_since s s'')) = 0 \<and>
      length (filter is_enable_attribute (issued_since s s'')) = 0) \<and>
   ((\<forall>calls. glGetError_result drv calls = 0) \<and> context \<noteq> None \<and> vertex_buffer \<noteq> 0 \<longrightarrow>
      (\<exists>s'. EnableVertexDeclaration drv context (Some vd) vertex_buffer s = Inr s') \<and>
      (\<exists>s''. DisableVertexDeclaration drv context (Some vd) s = Inr s'')) \<and>
   (NewVertexDeclaration capacity fresh element count = Inr vd \<longrightarrow>
      map (\<lambda>i. m_Index (m_Streams vd i)) [0..<m_StreamCount vd] = [0..<m_StreamCount vd])"
proof (intro conjI impI)
  assume "EnableVertexDeclaration drv context (Some vd) vertex_buffer s = Inr s'"
  from EnableVertexDeclaration_Inr [OF this]
  have new: "issued_since s s' =
        BindBufferARB GL_ARRAY_BUFFER vertex_buffer # concat (map (enable_calls vd) [0..<m_StreamCount vd])"
    by (simp add: issued_since_def)
  show "issued_since s s' =
        BindBufferARB GL_ARRAY_BUFFER vertex_buffer # concat (map (enable_calls vd) [0..<m_StreamCount vd])"
    by (rule new)
  show "length (filter is_enable_attribute (issued_since s s')) = m_StreamCount vd"
    "length (filter is_set_pointer (issued_since s s')) = m_StreamCount vd"
    "length (filter is_disable_attribute (issued_since s s')) = 0"
    by (simp_all add: new enable_calls_counts)
next
  assume "DisableVertexDeclaration drv context (Some vd) s = Inr s''"
  from DisableVertexDeclaration_Inr [OF this]
  have new: "issued_since s s'' =
        map DisableVertexAttribArray [0..<m_StreamCount vd] @
        [BindBufferARB GL_ARRAY_BUFFER_ARB 0, BindBufferARB GL_ELEMENT_ARRAY_BUFFER_ARB 0]"
    by (simp add: issued_since_def)
  show "issued_since s s'' =
        map DisableVertexAttribArray [0..<m_StreamCount vd] @
        [BindBufferARB GL_ARRAY_BUFFER_ARB 0, BindBufferARB GL_ELEMENT_ARRAY_BUFFER_ARB 0]"
    by (rule new)
  show "length (filter is_disable_attribute (issued_since s s'')) = m_StreamCount vd"
    "length (filter is_set_pointer (issued_since s s'')) = 0"
    "length (filter is_enable_attribute (issued_since s s'')) = 0"
    by (simp_all add: new disable_calls_counts)
next
  assume "(\<forall>calls. glGetError_result drv calls = 0) \<and> context \<noteq> None \<and> vertex_buffer \<noteq> 0"
  then show "\<exists>s'. EnableVertexDeclaration drv context (Some vd) vertex_buffer s = Inr s'"
    "\<exists>s''. DisableVertexDeclaration drv context (Some vd) s = Inr s''"
    by (simp_all add: EnableVertexDeclaration_returns DisableVertexDeclaration_returns)
next
  assume "NewVertexDeclaration capacity fresh element count = Inr vd"
  then show "map (\<lambda>i. m_Index (m_Streams vd i)) [0..<m_StreamCount vd] = [0..<m_StreamCount vd]"
    by (rule NewVertexDeclaration_indices)
qed

theorem vertex_declaration_enable_disable_witness:
  "\<exists>vd s' s''.
     NewVertexDeclaration 8 (example_fresh 0) example_elements 2 = Inr vd \<and>
     EnableVertexDeclaration quiet_driver GetContext (Some vd) 5 initial_state = Inr s' \<and>
     length (filter is_enable_attribute (issued_since initial_state s')) = 2 \<and>
     length (filter is_set_pointer (issued_since initial_state s')) = 2 \<and>
     DisableVertexDeclaration quiet_driver GetContext (Some vd) s' = Inr s'' \<and>
     issued_since s' s'' =
       [DisableVertexAttribArray 0, DisableVertexAttribArray 1,
        BindBufferARB GL_ARRAY_BUFFER_ARB 0, BindBufferARB GL_ELEMENT_ARRAY_BUFFER_ARB 0] \<and>
     length (filter is_set_pointer (issued_since s' s'')) = 0 \<and>
     map (\<lambda>i. m_Index (m_Streams vd i)) [0..<m_StreamCount vd] = [0, 1]"
proof -
  have "\<exists>vd. NewVertexDeclaration 8 (example_fresh 0) example_elements 2 = Inr vd"
    by (simp add: NewVertexDeclaration_Inr_iff example_elements_recognized)
  then obtain vd where vd: "NewVertexDeclaration 8 (example_fresh 0) example_elements 2 = Inr vd" ..
  have n: "m_StreamCount vd = 2"
    using NewVertexDeclaration_Inr_streams(1) [OF vd] .
  have upt: "[0..<2] = [0, Suc 0]"
    by (simp add: upt_conv_Cons)
  have pre: "(\<forall>calls. glGetError_result quiet_driver calls = 0) \<and> GetContext \<noteq> None \<and> (5::u32) \<noteq> 0"
    by (simp add: quiet_driver_def GetContext_def)
  note c2 = vertex_declaration_enable_disable
    [of quiet_driver GetContext vd 5 _ _ _ 8 "example_fresh 0" example_elements 2]
  from c2 [of initial_state] pre obtain s' where
    s': "EnableVertexDeclaration quiet_driver GetContext (Some vd) 5 initial_state = Inr s'"
    by blast
  from c2 [of s'] pre obtain s'' where
    s'': "DisableVertexDeclaration quiet_driver GetContext (Some vd) s' = Inr s''"
    by blast
  from c2 [of initial_state s'] s'
  have enabled: "length (filter is_enable_attribute (issued_since initial_state s')) = m_StreamCount vd"
    "length (filter is_set_pointer (issued_since initial_state s')) = m_StreamCount vd"
    by blast+
  from c2 [of s' _ s''] s''
  have disabled: "issued_since s' s'' =
        map DisableVertexAttribArray [0..<m_StreamCount vd] @
        [BindBufferARB GL_ARRAY_BUFFER_ARB 0, BindBufferARB GL_ELEMENT_ARRAY_BUFFER_ARB 0]"
    "length (filter is_set_pointer (issued_since s' s'')) = 0"
    by blast+
  from c2 [of initial_state] vd
  have indices: "map (\<lambda>i. m_Index (m_Streams vd i)) [0..<m_StreamCount vd] = [0..<m_StreamCount vd]"
    by blast
  from vd s' s'' enabled disabled indices show ?thesis
    by (simp add: n upt)
qed

subsection \<open>Program constants\<close>


lemma SetProgramConstantBlock_loop_unfold:
  "SetProgramConstantBlock_loop drv type f base_register num_vectors i reg s =
     (if i < num_vectors then
        and_then (int_add base_register i) (\<lambda>index.
        and_then (int_add 0 reg) (\<lambda>k0.
        and_then (int_add 1 reg) (\<lambda>k1.
        and_then (int_add 2 reg) (\<lambda>k2.
        and_then (int_add 3 reg) (\<lambda>k3.
        and_then (CHECK_GL_ERROR drv
                    (glProgramLocalParameter4fARB type index (f k0) (f k1) (f k2) (f k3) s)) (\<lambda>s'.
        and_then (int_add i 1) (\<lambda>i'.
        and_then (int_add reg 4) (\<lambda>reg'.
          SetProgramConstantBlock_loop drv type f base_register num_vectors i' reg' s'))))))))
      else Inr s)"
  by (subst SetProgramConstantBlock_loop.simps) (simp only: and_then_def)


lemma int_add_Inr: "int_add a b = Inr c \<longleftrightarrow> INT_MIN \<le> a + b \<and> a + b \<le> INT_MAX \<and> c = a + b"
  by (auto simp: int_add_def)

lemma SetProgramConstantBlock_loop_iteration:
  assumes "i < num_vectors"
    and "SetProgramConstantBlock_loop drv type f base_register num_vectors i reg s = Inr s'"
  shows "base_register + i \<le> INT_MAX \<and> INT_MIN \<le> base_register + i \<and>
         INT_MIN \<le> reg \<and> 3 + reg \<le> INT_MAX \<and> reg + 4 \<le> INT_MAX \<and> i + 1 \<le> INT_MAX \<and>
         glGetError_result drv
           (native_calls s @
              [ProgramLocalParameter4fARB type (base_register + i) (f reg) (f (1 + reg)) (f (2 + reg))
                 (f (3 + reg))]) = 0 \<and>
         SetProgramConstantBlock_loop drv type f base_register num_vectors (i + 1) (reg + 4)
           (s\<lparr>native_calls := native_calls s @
                [ProgramLocalParameter4fARB type (base_register + i) (f reg) (f (1 + reg)) (f (2 + reg))
                   (f (3 + reg))]\<rparr>) = Inr s'"
proof -
  from assms
  have "\<exists>index. int_add base_register i = Inr index \<and>
          (\<exists>k0. int_add 0 reg = Inr k0 \<and>
          (\<exists>k1. int_add 1 reg = Inr k1 \<and>
          (\<exists>k2. int_add 2 reg = Inr k2 \<and>
          (\<exists>k3. int_add 3 reg = Inr k3 \<and>
          (\<exists>s1. CHECK_GL_ERROR drv
                  (glProgramLocalParameter4fARB type index (f k0) (f k1) (f k2) (f k3) s) = Inr s1 \<and>
          (\<exists>i'. int_add i 1 = Inr i' \<and>
          (\<exists>reg'. int_add reg 4 = Inr reg' \<and>
             SetProgramConstantBlock_loop drv type f base_register num_vectors i' reg' s1
               = Inr s')))))))"
    by (simp only: SetProgramConstantBlock_loop_unfold [of drv type f base_register num_vectors i reg s]
        if_True and_then_eq_Inr)
  then obtain index k0 k1 k2 k3 s1 i' reg' where
      steps: "int_add base_register i = Inr index" "int_add 0 reg = Inr k0" "int_add 1 reg = Inr k1"
        "int_add 2 reg = Inr k2" "int_add 3 reg = Inr k3"
        "CHECK_GL_ERROR drv
           (glProgramLocalParameter4fARB type index (f k0) (f k1) (f k2) (f k3) s) = Inr s1"
        "int_add i 1 = Inr i'" "int_add reg 4 = Inr reg'"
      and rest: "SetProgramConstantBlock_loop drv type f base_register num_vectors i' reg' s1 = Inr s'"
    by blast
  from steps(1-5,7,8) have vals: "index = base_register + i" "k0 = reg" "k1 = 1 + reg"
      "k2 = 2 + reg" "k3 = 3 + reg" "i' = i + 1" "reg' = reg + 4"
    and range: "base_register + i \<le> INT_MAX" "INT_MIN \<le> base_register + i"
         "INT_MIN \<le> reg" "3 + reg \<le> INT_MAX" "reg + 4 \<le> INT_MAX" "i + 1 \<le> INT_MAX"
    by (simp_all add: int_add_Inr)
  from steps(6) have "glGetError_result drv
           (native_calls s @
              [ProgramLocalParameter4fARB type (base_register + i) (f reg) (f (1 + reg)) (f (2 + reg))
                 (f (3 + reg))]) = 0"
    and "s1 = s\<lparr>native_calls := native_calls s @
                [ProgramLocalParameter4fARB type (base_register + i) (f reg) (f (1 + reg)) (f (2 + reg))
                   (f (3 + reg))]\<rparr>"
    by (simp_all add: CHECK_GL_ERROR_Inr vals glProgramLocalParameter4fARB_def issue_def)
  with rest range show ?thesis
    by (simp add: vals)
qed


lemma float_view_components:
  assumes "0 \<le> i"
  shows "float_view data (4 * i) = mX (data (nat i))"
    and "float_view data (1 + 4 * i) = mY (data (nat i))"
    and "float_view data (2 + 4 * i) = mZ (data (nat i))"
    and "float_view data (3 + 4 * i) = mW (data (nat i))"
  by (simp_all add: float_view_def Let_def)

lemma SetProgramConstantBlock_loop_Inr:
  "0 \<le> i \<Longrightarrow> reg = 4 * i \<Longrightarrow>
   SetProgramConstantBlock_loop drv type (float_view data) base_register num_vectors i reg s = Inr s' \<Longrightarrow>
   s' = s\<lparr>native_calls := native_calls s @
            map (register_write type data base_register) [nat i..<nat num_vectors]\<rparr>"
proof (induction "nat (num_vectors - i)" arbitrary: i reg s)
  case 0
  then have "\<not> i < num_vectors" by simp
  with "0.prems"(3) show ?case
    by (simp add: SetProgramConstantBlock_loop_unfold [of _ _ _ _ num_vectors i])
next
  case (Suc d)
  then have lt: "i < num_vectors" by simp
  define s1 where "s1 = s\<lparr>native_calls := native_calls s @
                [ProgramLocalParameter4fARB type (base_register + i) (float_view data reg)
                   (float_view data (1 + reg)) (float_view data (2 + reg)) (float_view data (3 + reg))]\<rparr>"
  from SetProgramConstantBlock_loop_iteration [OF lt Suc.prems(3)]
  have rest: "SetProgramConstantBlock_loop drv type (float_view data) base_register num_vectors
                (i + 1) (reg + 4) s1 = Inr s'"
    by (simp add: s1_def)
  have s1: "s1 = s\<lparr>native_calls := native_calls s @ [register_write type data base_register (nat i)]\<rparr>"
    using Suc.prems(1,2) by (simp add: s1_def register_write_def float_view_components)
  from Suc.hyps(2) have d: "d = nat (num_vectors - (i + 1))" by simp
  from Suc.prems(1) have i': "0 \<le> i + 1" by simp
  from Suc.prems(2) have reg': "reg + 4 = 4 * (i + 1)" by simp
  from Suc.hyps(1) [OF d i' reg' rest]
  have "s' = s1\<lparr>native_calls := native_calls s1 @
            map (register_write type data base_register) [nat (i + 1)..<nat num_vectors]\<rparr>" .
  moreover have "[nat i..<nat num_vectors] = nat i # [nat (i + 1)..<nat num_vectors]"
    using lt Suc.prems(1) by (simp add: upt_conv_Cons nat_add_distrib)
  ultimately show ?case
    by (simp add: s1)
qed

lemma SetProgramConstantBlock_loop_returns:
  assumes quiet: "\<forall>calls. glGetError_result drv calls = 0"
    and b: "0 \<le> base_register" "base_register + num_vectors - 1 \<le> INT_MAX"
    and n: "4 * num_vectors \<le> INT_MAX"
  shows "0 \<le> i \<Longrightarrow> reg = 4 * i \<Longrightarrow>
         \<exists>s'. SetProgramConstantBlock_loop drv type f base_register num_vectors i reg s = Inr s'"
proof (induction "nat (num_vectors - i)" arbitrary: i reg s)
  case 0
  then have "\<not> i < num_vectors" by simp
  then show ?case
    by (simp add: SetProgramConstantBlock_loop_unfold [of _ _ _ _ num_vectors i])
next
  case (Suc d)
  then have lt: "i < num_vectors" by simp
  from Suc.hyps(2) have d: "d = nat (num_vectors - (i + 1))" by simp
  from Suc.prems(1) have i': "0 \<le> i + 1" by simp
  from Suc.prems(2) have reg': "reg + 4 = 4 * (i + 1)" by simp
  have adds: "int_add base_register i = Inr (base_register + i)"
    "int_add 0 reg = Inr (0 + reg)" "int_add 1 reg = Inr (1 + reg)" "int_add 2 reg = Inr (2 + reg)"
    "int_add 3 reg = Inr (3 + reg)" "int_add i 1 = Inr (i + 1)" "int_add reg 4 = Inr (reg + 4)"
    using lt b n Suc.prems by (simp_all add: int_add_def INT_MIN_def INT_MAX_def)
  from Suc.hyps(1) [OF d i' reg'] show ?case
    by (subst SetProgramConstantBlock_loop_unfold)
      (simp only: lt if_True adds and_then_simps CHECK_GL_ERROR_quiet [OF quiet])
qed


lemma SetProgramConstantBlock_Inr:
  assumes "SetProgramConstantBlock drv context type (Some data) base_register num_vectors s = Inr s'"
  shows "0 \<le> base_register" "0 \<le> num_vectors"
    and "s' = s\<lparr>native_calls := native_calls s @
                 map (register_write type data base_register) [0..<nat num_vectors]\<rparr>"
proof -
  from assms show "0 \<le> base_register" "0 \<le> num_vectors"
    by (simp_all add: SetProgramConstantBlock_def split: if_splits)
  from assms have "SetProgramConstantBlock_loop drv type (float_view data) base_register num_vectors 0 0 s
      = Inr s'"
    by (simp add: SetProgramConstantBlock_def split: if_splits)
  from SetProgramConstantBlock_loop_Inr [OF _ _ this]
  show "s' = s\<lparr>native_calls := native_calls s @
                 map (register_write type data base_register) [0..<nat num_vectors]\<rparr>"
    by simp
qed

lemma SetProgramConstantBlock_returns:
  assumes "\<forall>calls. glGetError_result drv calls = 0" "context \<noteq> None"
    and "0 \<le> base_register" "0 \<le> num_vectors"
    and "base_register + num_vectors - 1 \<le> INT_MAX" "4 * num_vectors \<le> INT_MAX"
  shows "\<exists>s'. SetProgramConstantBlock drv context type (Some data) base_register num_vectors s = Inr s'"
  using assms SetProgramConstantBlock_loop_returns
    [of drv base_register num_vectors 0 0 type "float_view data" s]
  by (simp add: SetProgramConstantBlock_def)

lemma SetProgramConstantBlock_register_overflow:
  assumes "\<forall>calls. glGetError_result drv calls = 0" "context \<noteq> None"
  shows "SetProgramConstantBlock drv context type (Some data) INT_MAX 2 s = Inl SignedOverflow"
proof -
  have first: "SetProgramConstantBlock_loop drv type f INT_MAX 2 0 0 s =
                 SetProgramConstantBlock_loop drv type f INT_MAX 2 1 4
                   (glProgramLocalParameter4fARB type INT_MAX (f 0) (f 1) (f 2) (f 3) s)" for f
    by (subst SetProgramConstantBlock_loop_unfold)
      (simp add: int_add_def INT_MAX_def INT_MIN_def CHECK_GL_ERROR_quiet [OF assms(1)])
  have second: "SetProgramConstantBlock_loop drv type f INT_MAX 2 1 4 s1 = Inl SignedOverflow" for f s1
    by (subst SetProgramConstantBlock_loop_unfold) (simp add: int_add_def INT_MAX_def INT_MIN_def)
  from assms(2) show ?thesis
    by (simp add: SetProgramConstantBlock_def first second) (simp add: INT_MAX_def)
qed

text \<open>
  Claim C8. \<^verbatim>\<open>SetProgramConstantBlock\<close>, and with it \<^verbatim>\<open>SetVertexConstantBlock\<close> and
  \<^verbatim>\<open>SetFragmentConstantBlock\<close>, when it returns for base register \<open>b\<close> and count \<open>n\<close>, has
  issued exactly \<open>n\<close> calls and nothing else: call \<open>i\<close> writes register \<open>b + i\<close> with the four
  components of input vector \<open>i\<close>, in order. It returns for every non-negative \<open>b\<close> and \<open>n\<close>
  whose registers and float offsets are \<^verbatim>\<open>int\<close>s (\<open>b + n - 1 \<le> INT_MAX\<close>, \<open>4 * n \<le> INT_MAX\<close>),
  when the native side reports no error and the context is not null.
\<close>

theorem constant_block_registers:
  "(SetProgramConstantBlock drv context type (Some data) b n s = Inr s' \<longrightarrow>
      0 \<le> b \<and> 0 \<le> n \<and>
      issued_since s s' = map (register_write type data b) [0..<nat n] \<and>
      length (issued_since s s') = nat n \<and>
      s' = s\<lparr>native_calls := native_calls s @ issued_since s s'\<rparr>) \<and>
   (SetVertexConstantBlock drv context (Some data) b n s = Inr s' \<longrightarrow>
      issued_since s s' = map (register_write GL_VERTEX_PROGRAM_ARB data b) [0..<nat n]) \<and>
   (SetFragmentConstantBlock drv context (Some data) b n s = Inr s' \<longrightarrow>
      issued_since s s' = map (register_write GL_FRAGMENT_PROGRAM_ARB data b) [0..<nat n]) \<and>
   ((\<forall>calls. glGetError_result drv calls = 0) \<and> context \<noteq> None \<and> 0 \<le> b \<and> 0 \<le> n \<and>
    b + n - 1 \<le> INT_MAX \<and> 4 * n \<le> INT_MAX \<longrightarrow>
      (\<exists>s'. SetProgramConstantBlock drv context type (Some data) b n s = Inr s') \<and>
      (\<exists>s'. SetVertexConstantBlock drv context (Some data) b n s = Inr s') \<and>
      (\<exists>s'. SetFragmentConstantBlock drv context (Some data) b n s = Inr s')) \<and>
   (\<forall>i<nat n. map (register_write type data b) [0..<nat n] ! i =
      ProgramLocalParameter4fARB type (b + int i) (mX (data i)) (mY (data i)) (mZ (data i)) (mW (data i)))"
proof (intro conjI impI allI)
  assume r: "SetProgramConstantBlock drv context type (Some data) b n s = Inr s'"
  note p = SetProgramConstantBlock_Inr [OF r]
  show "0 \<le> b" "0 \<le> n" by (rule p)+
  have new: "issued_since s s' = map (register_write type data b) [0..<nat n]"
    by (subst p(3)) (simp add: issued_since_def)
  show "issued_since s s' = map (register_write type data b) [0..<nat n]" by (rule new)
  show "length (issued_since s s') = nat n" by (simp add: new)
  show "s' = s\<lparr>native_calls := native_calls s @ issued_since s s'\<rparr>"
    by (simp only: new) (rule p(3))
next
  assume "SetVertexConstantBlock drv context (Some data) b n s = Inr s'"
  then have "SetProgramConstantBlock drv context GL_VERTEX_PROGRAM_ARB (Some data) b n s = Inr s'"
    by (auto simp: SetVertexConstantBlock_def and_then_eq_Inr CHECK_GL_ERROR_Inr split: if_splits)
  from SetProgramConstantBlock_Inr(3) [OF this]
  show "issued_since s s' = map (register_write GL_VERTEX_PROGRAM_ARB data b) [0..<nat n]"
    by (simp add: issued_since_def)
next
  assume "SetFragmentConstantBlock drv context (Some data) b n s = Inr s'"
  then have "SetProgramConstantBlock drv context GL_FRAGMENT_PROGRAM_ARB (Some data) b n s = Inr s'"
    by (auto simp: SetFragmentConstantBlock_def and_then_eq_Inr CHECK_GL_ERROR_Inr split: if_splits)
  from SetProgramConstantBlock_Inr(3) [OF this]
  show "issued_since s s' = map (register_write GL_FRAGMENT_PROGRAM_ARB data b) [0..<nat n]"
    by (simp add: issued_since_def)
next
  assume pre: "(\<forall>calls. glGetError_result drv calls = 0) \<and> context \<noteq> None \<and> 0 \<le> b \<and> 0 \<le> n \<and>
    b + n - 1 \<le> INT_MAX \<and> 4 * n \<le> INT_MAX"
  then have ret: "\<exists>s'. SetProgramConstantBlock drv context type (Some data) b n s = Inr s'" for type
    by (intro SetProgramConstantBlock_returns) simp_all
  show "\<exists>s'. SetProgramConstantBlock drv context type (Some data) b n s = Inr s'"
    by (rule ret)
  from ret [of GL_VERTEX_PROGRAM_ARB] pre
  show "\<exists>s'. SetVertexConstantBlock drv context (Some data) b n s = Inr s'"
    by (auto simp: SetVertexConstantBlock_def CHECK_GL_ERROR_quiet)
  from ret [of GL_FRAGMENT_PROGRAM_ARB] pre
  show "\<exists>s'. SetFragmentConstantBlock drv context (Some data) b n s = Inr s'"
    by (auto simp: SetFragmentConstantBlock_def CHECK_GL_ERROR_quiet)
next
  fix i assume "i < nat n"
  then show "map (register_write type data b) [0..<nat n] ! i =
      ProgramLocalParameter4fARB type (b + int i) (mX (data i)) (mY (data i)) (mZ (data i)) (mW (data i))"
    by (simp add: register_write_def)
qed

theorem constant_block_registers_witness:
  "(\<exists>s'. SetVertexConstantBlock quiet_driver GetContext (Some example_vectors) 10 3 initial_state = Inr s' \<and>
      native_calls s' =
        [ProgramLocalParameter4fARB GL_VERTEX_PROGRAM_ARB 10 0 1 2 3,
         ProgramLocalParameter4fARB GL_VERTEX_PROGRAM_ARB 11 4 5 6 7,
         ProgramLocalParameter4fARB GL_VERTEX_PROGRAM_ARB 12 8 9 10 11]) \<and>
   (\<exists>s'. SetFragmentConstantBlock quiet_driver GetContext (Some example_vectors) 10 3 initial_state = Inr s' \<and>
      native_calls s' =
        [ProgramLocalParameter4fARB GL_FRAGMENT_PROGRAM_ARB 10 0 1 2 3,
         ProgramLocalParameter4fARB GL_FRAGMENT_PROGRAM_ARB 11 4 5 6 7,
         ProgramLocalParameter4fARB GL_FRAGMENT_PROGRAM_ARB 12 8 9 10 11]) \<and>
   (\<exists>s'. SetProgramConstantBlock quiet_driver GetContext GL_VERTEX_PROGRAM_ARB (Some example_vectors) 10 3
            initial_state = Inr s' \<and>
      length (issued_since initial_state s') = 3 \<and>
      issued_since initial_state s' ! 1 = ProgramLocalParameter4fARB GL_VERTEX_PROGRAM_ARB 11 4 5 6 7)"
proof -
  note c8 = constant_block_registers
    [of quiet_driver GetContext GL_VERTEX_PROGRAM_ARB example_vectors 10 3 initial_state]
  have pre: "(\<forall>calls. glGetError_result quiet_driver calls = 0) \<and> GetContext \<noteq> None \<and>
             (0::int) \<le> 10 \<and> (0::int) \<le> 3 \<and> 10 + 3 - 1 \<le> INT_MAX \<and> 4 * 3 \<le> INT_MAX"
    by (simp add: quiet_driver_def GetContext_def INT_MAX_def)
  have upt: "[0..<nat 3] = [0, 1, 2]" "[0..<3] = [0, 1, 2]"
    by (simp_all add: upt_conv_Cons eval_nat_numeral)
  have writes: "map (register_write type example_vectors 10) [0..<3] =
        [ProgramLocalParameter4fARB type 10 0 1 2 3,
         ProgramLocalParameter4fARB type 11 4 5 6 7,
         ProgramLocalParameter4fARB type 12 8 9 10 11]" for type
    by (simp add: upt register_write_def example_vectors_def)
  have since: "issued_since initial_state s' = native_calls s'" for s'
    by (simp add: issued_since_def initial_state_def)
  from c8 pre obtain s1 where
    s1: "SetVertexConstantBlock quiet_driver GetContext (Some example_vectors) 10 3 initial_state = Inr s1"
    by blast
  from c8 [of s1] s1
  have "issued_since initial_state s1 = map (register_write GL_VERTEX_PROGRAM_ARB example_vectors 10) [0..<nat 3]"
    by blast
  with s1 have first: "\<exists>s'. SetVertexConstantBlock quiet_driver GetContext (Some example_vectors) 10 3 initial_state = Inr s' \<and>
      native_calls s' =
        [ProgramLocalParameter4fARB GL_VERTEX_PROGRAM_ARB 10 0 1 2 3,
         ProgramLocalParameter4fARB GL_VERTEX_PROGRAM_ARB 11 4 5 6 7,
         ProgramLocalParameter4fARB GL_VERTEX_PROGRAM_ARB 12 8 9 10 11]"
    by (simp add: since writes)
  from c8 pre obtain s2 where
    s2: "SetFragmentConstantBlock quiet_driver GetContext (Some example_vectors) 10 3 initial_state = Inr s2"
    by blast
  from c8 [of s2] s2
  have "issued_since initial_state s2 = map (register_write GL_FRAGMENT_PROGRAM_ARB example_vectors 10) [0..<nat 3]"
    by blast
  with s2 have second: "\<exists>s'. SetFragmentConstantBlock quiet_driver GetContext (Some example_vectors) 10 3 initial_state = Inr s' \<and>
      native_calls s' =
        [ProgramLocalParameter4fARB GL_FRAGMENT_PROGRAM_ARB 10 0 1 2 3,
         ProgramLocalParameter4fARB GL_FRAGMENT_PROGRAM_ARB 11 4 5 6 7,
         ProgramLocalParameter4fARB GL_FRAGMENT_PROGRAM_ARB 12 8 9 10 11]"
    by (simp add: since writes)
  from c8 pre obtain s3 where
    s3: "SetProgramConstantBlock quiet_driver GetContext GL_VERTEX_PROGRAM_ARB (Some example_vectors) 10 3
           initial_state = Inr s3"
    by blast
  from c8 [of s3] s3
  have "issued_since initial_state s3 = map (register_write GL_VERTEX_PROGRAM_ARB example_vectors 10) [0..<nat 3]"
    by blast
  with s3 have third: "\<exists>s'. SetProgramConstantBlock quiet_driver GetContext GL_VERTEX_PROGRAM_ARB (Some example_vectors) 10 3
            initial_state = Inr s' \<and>
      length (issued_since initial_state s') = 3 \<and>
      issued_since initial_state s' ! 1 = ProgramLocalParameter4fARB GL_VERTEX_PROGRAM_ARB 11 4 5 6 7"
    by (simp add: writes)
  from first second third show ?thesis by blast
qed

subsection \<open>Sockets from the configuration\<close>

lemma GetSocketsFromConfig_guarded_lookups:
  "GetSocketsFromConfig GetInt config socket socket_ssl socket_ssl_test m =
     guarded_lookups GetInt config
       [(''server.socket'', socket), (''server.socket_ssl'', socket_ssl),
        (''server.socket_ssl_test'', socket_ssl_test)] m"
  by (simp add: GetSocketsFromConfig_def Let_def)

lemma guarded_lookups_ints_other:
  "a \<notin> set (filter (\<lambda>p. p \<noteq> 0) (map snd kps)) \<Longrightarrow>
     ints (guarded_lookups GetInt config kps m) a = ints m a"
  by (induction kps arbitrary: m) (auto simp: store_GetInt_def)

lemma guarded_lookups_ints_written:
  "distinct (filter (\<lambda>p. p \<noteq> 0) (map snd kps)) \<Longrightarrow> (k, p) \<in> set kps \<Longrightarrow> p \<noteq> 0 \<Longrightarrow>
     ints (guarded_lookups GetInt config kps m) p = GetInt config k (- 1)"
proof (induction kps arbitrary: m)
  case Nil
  then show ?case by simp
next
  case (Cons kp kps)
  obtain k' p' where kp: "kp = (k', p')" by (cases kp)
  show ?case
  proof (cases "(k, p) = (k', p')")
    case True
    with Cons.prems kp have "p \<notin> set (filter (\<lambda>p. p \<noteq> 0) (map snd kps))"
      by simp
    then have "ints (guarded_lookups GetInt config kps m') p = ints m' p" for m'
      by (rule guarded_lookups_ints_other)
    with True kp Cons.prems(3) show ?thesis
      by (simp add: store_GetInt_def)
  next
    case False
    with Cons.prems(2) kp have "(k, p) \<in> set kps" by auto
    moreover from Cons.prems(1) have "distinct (filter (\<lambda>p. p \<noteq> 0) (map snd kps))"
      by (simp split: if_splits)
    ultimately show ?thesis
      using Cons.IH Cons.prems(3) kp by simp
  qed
qed

lemma guarded_lookups_lookups:
  "lookups (guarded_lookups GetInt config kps m) =
     lookups m @ map fst (filter (\<lambda>(k, p). p \<noteq> 0) kps)"
  by (induction kps arbitrary: m) (auto simp: store_GetInt_def)

lemma filter_map_snd:
  "filter (\<lambda>p. p \<noteq> (0::nat)) (map snd kps) = map snd (filter (\<lambda>(k, p). p \<noteq> 0) kps)"
  by (induction kps) auto

lemma guarded_lookups_any_order:
  assumes sep: "distinct (filter (\<lambda>p. p \<noteq> 0) (map snd kps))"
    and perm: "distinct kps'" "set kps' = set kps"
  shows "ints (guarded_lookups GetInt config kps' m) = ints (guarded_lookups GetInt config kps m)"
proof
  fix a
  have inj: "inj_on snd (set (filter (\<lambda>(k, p). p \<noteq> 0) kps))"
    using sep unfolding filter_map_snd distinct_map by blast
  have same: "set (filter (\<lambda>(k, p). p \<noteq> 0) kps') = set (filter (\<lambda>(k, p). p \<noteq> 0) kps)"
    using perm(2) by simp
  have sep': "distinct (filter (\<lambda>p. p \<noteq> 0) (map snd kps'))"
    unfolding filter_map_snd distinct_map same using perm(1) inj by simp
  show "ints (guarded_lookups GetInt config kps' m) a = ints (guarded_lookups GetInt config kps m) a"
  proof (cases "a \<in> set (filter (\<lambda>p. p \<noteq> 0) (map snd kps))")
    case True
    then obtain k where k: "(k, a) \<in> set kps" "a \<noteq> 0" by auto
    with perm(2) have "(k, a) \<in> set kps'" by simp
    from guarded_lookups_ints_written [OF sep' this k(2), of GetInt config m]
      guarded_lookups_ints_written [OF sep k, of GetInt config m]
    show ?thesis by simp
  next
    case False
    moreover from False perm(2) have "a \<notin> set (filter (\<lambda>p. p \<noteq> 0) (map snd kps'))" by simp
    ultimately show ?thesis
      by (simp add: guarded_lookups_ints_other)
  qed
qed

lemma guarded_lookups_stores:
  "stores (guarded_lookups GetInt config kps m) =
     stores m @ map (\<lambda>(k, p). (p, GetInt config k (- 1))) (filter (\<lambda>(k, p). p \<noteq> 0) kps)"
  by (induction kps arbitrary: m) (auto simp: store_GetInt_def)

lemma guarded_lookups_stores_any_order:
  assumes "set kps' = set kps"
  shows "set (stored_since m (guarded_lookups GetInt config kps' m)) =
         set (stored_since m (guarded_lookups GetInt config kps m))"
  using assms by (simp add: stored_since_def guarded_lookups_stores)

text \<open>
  Claim C4. With \<^verbatim>\<open>dmConfigFile::GetInt\<close> as the spec describes it,
  \<^verbatim>\<open>GetSocketsFromConfig\<close> assigns, to each non-null output and to nothing else, -1 when
  the store has no entry for the output's key and the stored integer otherwise. Carrying
  the three guarded assignments out in any other order makes the same assignments; and
  when the non-null outputs are different cells, every order leaves the same integers in
  memory, each output holding the value of its own key.
\<close>

theorem GetSocketsFromConfig_values:
  "m' = GetSocketsFromConfig dmConfigFile_GetInt config socket socket_ssl socket_ssl_test m \<longrightarrow>
     stored_since m m' =
       (if socket \<noteq> 0
        then [(socket, case config ''server.socket'' of None \<Rightarrow> - 1 | Some v \<Rightarrow> v)] else []) @
       (if socket_ssl \<noteq> 0
        then [(socket_ssl, case config ''server.socket_ssl'' of None \<Rightarrow> - 1 | Some v \<Rightarrow> v)] else []) @
       (if socket_ssl_test \<noteq> 0
        then [(socket_ssl_test, case config ''server.socket_ssl_test'' of None \<Rightarrow> - 1 | Some v \<Rightarrow> v)]
        else []) \<and>
     (\<forall>order. distinct order \<and>
        set order = {(''server.socket'', socket), (''server.socket_ssl'', socket_ssl),
                     (''server.socket_ssl_test'', socket_ssl_test)} \<longrightarrow>
        set (stored_since m (guarded_lookups dmConfigFile_GetInt config order m)) =
        set (stored_since m m')) \<and>
     (separate_outputs [socket, socket_ssl, socket_ssl_test] \<longrightarrow>
        (socket \<noteq> 0 \<longrightarrow>
           ints m' socket = (case config ''server.socket'' of None \<Rightarrow> - 1 | Some v \<Rightarrow> v)) \<and>
        (socket_ssl \<noteq> 0 \<longrightarrow>
           ints m' socket_ssl = (case config ''server.socket_ssl'' of None \<Rightarrow> - 1 | Some v \<Rightarrow> v)) \<and>
        (socket_ssl_test \<noteq> 0 \<longrightarrow>
           ints m' socket_ssl_test =
             (case config ''server.socket_ssl_test'' of None \<Rightarrow> - 1 | Some v \<Rightarrow> v)) \<and>
        (\<forall>order. distinct order \<and>
           set order = {(''server.socket'', socket), (''server.socket_ssl'', socket_ssl),
                        (''server.socket_ssl_test'', socket_ssl_test)} \<longrightarrow>
           ints (guarded_lookups dmConfigFile_GetInt config order m) = ints m'))"
proof (intro impI, intro conjI)
  let ?kps = "[(''server.socket'', socket), (''server.socket_ssl'', socket_ssl),
               (''server.socket_ssl_test'', socket_ssl_test)]"
  assume "m' = GetSocketsFromConfig dmConfigFile_GetInt config socket socket_ssl socket_ssl_test m"
  then have m': "m' = guarded_lookups dmConfigFile_GetInt config ?kps m"
    by (simp only: GetSocketsFromConfig_guarded_lookups)
  show "stored_since m m' =
       (if socket \<noteq> 0
        then [(socket, case config ''server.socket'' of None \<Rightarrow> - 1 | Some v \<Rightarrow> v)] else []) @
       (if socket_ssl \<noteq> 0
        then [(socket_ssl, case config ''server.socket_ssl'' of None \<Rightarrow> - 1 | Some v \<Rightarrow> v)] else []) @
       (if socket_ssl_test \<noteq> 0
        then [(socket_ssl_test, case config ''server.socket_ssl_test'' of None \<Rightarrow> - 1 | Some v \<Rightarrow> v)]
        else [])"
    unfolding m' stored_since_def guarded_lookups_stores
    by (simp add: dmConfigFile_GetInt_def)
  show "\<forall>order. distinct order \<and>
        set order = {(''server.socket'', socket), (''server.socket_ssl'', socket_ssl),
                     (''server.socket_ssl_test'', socket_ssl_test)} \<longrightarrow>
        set (stored_since m (guarded_lookups dmConfigFile_GetInt config order m)) =
        set (stored_since m m')"
    unfolding m' by (intro allI impI guarded_lookups_stores_any_order) simp
  show "separate_outputs [socket, socket_ssl, socket_ssl_test] \<longrightarrow>
        (socket \<noteq> 0 \<longrightarrow>
           ints m' socket = (case config ''server.socket'' of None \<Rightarrow> - 1 | Some v \<Rightarrow> v)) \<and>
        (socket_ssl \<noteq> 0 \<longrightarrow>
           ints m' socket_ssl = (case config ''server.socket_ssl'' of None \<Rightarrow> - 1 | Some v \<Rightarrow> v)) \<and>
        (socket_ssl_test \<noteq> 0 \<longrightarrow>
           ints m' socket_ssl_test =
             (case config ''server.socket_ssl_test'' of None \<Rightarrow> - 1 | Some v \<Rightarrow> v)) \<and>
        (\<forall>order. distinct order \<and>
           set order = {(''server.socket'', socket), (''server.socket_ssl'', socket_ssl),
                        (''server.socket_ssl_test'', socket_ssl_test)} \<longrightarrow>
           ints (guarded_lookups dmConfigFile_GetInt config order m) = ints m')"
  proof (intro impI conjI allI)
    assume "separate_outputs [socket, socket_ssl, socket_ssl_test]"
    then have sep: "distinct (filter (\<lambda>p. p \<noteq> 0) (map snd ?kps))"
      by (simp add: separate_outputs_def)
    have written: "ints m' p = (case config k of None \<Rightarrow> - 1 | Some v \<Rightarrow> v)"
      if "(k, p) \<in> set ?kps" "p \<noteq> 0" for k p
      unfolding m' using guarded_lookups_ints_written [OF sep that, of dmConfigFile_GetInt config m]
      by (simp only: dmConfigFile_GetInt_def)
    show "ints m' socket = (case config ''server.socket'' of None \<Rightarrow> - 1 | Some v \<Rightarrow> v)"
      if "socket \<noteq> 0" using that by (intro written) simp_all
    show "ints m' socket_ssl = (case config ''server.socket_ssl'' of None \<Rightarrow> - 1 | Some v \<Rightarrow> v)"
      if "socket_ssl \<noteq> 0" using that by (intro written) simp_all
    show "ints m' socket_ssl_test = (case config ''server.socket_ssl_test'' of None \<Rightarrow> - 1 | Some v \<Rightarrow> v)"
      if "socket_ssl_test \<noteq> 0" using that by (intro written) simp_all
    show "ints (guarded_lookups dmConfigFile_GetInt config order m) = ints m'"
      if "distinct order \<and>
           set order = {(''server.socket'', socket), (''server.socket_ssl'', socket_ssl),
                        (''server.socket_ssl_test'', socket_ssl_test)}" for order
      unfolding m' using that guarded_lookups_any_order [OF sep, of order dmConfigFile_GetInt config m]
      by simp
  qed
qed

theorem GetSocketsFromConfig_values_witness:
  "stored_since example_memory
     (GetSocketsFromConfig dmConfigFile_GetInt example_config 100 104 108 example_memory) =
     [(100, 8001), (104, 8002), (108, - 1)] \<and>
   set (stored_since example_memory
          (guarded_lookups dmConfigFile_GetInt example_config
             [(''server.socket_ssl_test'', 108), (''server.socket'', 100), (''server.socket_ssl'', 104)]
             example_memory)) =
     {(100, 8001), (104, 8002), (108, - 1)} \<and>
   ints (GetSocketsFromConfig dmConfigFile_GetInt example_config 100 104 108 example_memory) 100 = 8001 \<and>
   ints (GetSocketsFromConfig dmConfigFile_GetInt example_config 100 104 108 example_memory) 104 = 8002 \<and>
   ints (GetSocketsFromConfig dmConfigFile_GetInt example_config 100 104 108 example_memory) 108 = - 1 \<and>
   ints (guarded_lookups dmConfigFile_GetInt example_config
           [(''server.socket_ssl_test'', 108), (''server.socket'', 100), (''server.socket_ssl'', 104)]
           example_memory) =
   ints (GetSocketsFromConfig dmConfigFile_GetInt example_config 100 104 108 example_memory)"
proof -
  have sep: "separate_outputs [100, 104, 108]"
    by (simp add: separate_outputs_def)
  have config: "example_config ''server.socket'' = Some 8001"
    "example_config ''server.socket_ssl'' = Some 8002"
    "example_config ''server.socket_ssl_test'' = None"
    by (simp_all add: example_config_def)
  have order: "distinct [(''server.socket_ssl_test'', 108::nat), (''server.socket'', 100), (''server.socket_ssl'', 104)] \<and>
      set [(''server.socket_ssl_test'', 108::nat), (''server.socket'', 100), (''server.socket_ssl'', 104)] =
        {(''server.socket'', 100), (''server.socket_ssl'', 104), (''server.socket_ssl_test'', 108)}"
    by auto
  from GetSocketsFromConfig_values
         [of "GetSocketsFromConfig dmConfigFile_GetInt example_config 100 104 108 example_memory"
             example_config 100 104 108 example_memory] sep
  have assigned: "stored_since example_memory
       (GetSocketsFromConfig dmConfigFile_GetInt example_config 100 104 108 example_memory) =
       [(100, 8001), (104, 8002), (108, - 1)]"
    and outputs:
    "ints (GetSocketsFromConfig dmConfigFile_GetInt example_config 100 104 108 example_memory) 100 = 8001"
    "ints (GetSocketsFromConfig dmConfigFile_GetInt example_config 100 104 108 example_memory) 104 = 8002"
    "ints (GetSocketsFromConfig dmConfigFile_GetInt example_config 100 104 108 example_memory) 108 = - 1"
    and any_order: "\<And>order. distinct order \<and>
        set order = {(''server.socket'', 100), (''server.socket_ssl'', 104),
                     (''server.socket_ssl_test'', 108)} \<Longrightarrow>
        set (stored_since example_memory (guarded_lookups dmConfigFile_GetInt example_config order example_memory)) =
        set (stored_since example_memory
               (GetSocketsFromConfig dmConfigFile_GetInt example_config 100 104 108 example_memory))"
    and any_order_ints: "\<And>order. distinct order \<and>
        set order = {(''server.socket'', 100), (''server.socket_ssl'', 104),
                     (''server.socket_ssl_test'', 108)} \<Longrightarrow>
        ints (guarded_lookups dmConfigFile_GetInt example_config order example_memory) =
        ints (GetSocketsFromConfig dmConfigFile_GetInt example_config 100 104 108 example_memory)"
    by (simp_all add: config)
  from assigned outputs any_order [OF order] any_order_ints [OF order] show ?thesis
    by simp
qed

text \<open>
  Claim C9. Whatever the lookup function: the keys looked up are those of the
  non-null outputs, in the source's order, so a key is looked up exactly when its
  output pointer is not null; the assignments made are those to the non-null outputs,
  each of the value looked up for its own key whatever the other two pointers are; no
  cell other than a non-null output changes; and when the non-null outputs are different
  cells, each holds afterwards the value it holds when the other two pointers are null.
\<close>

theorem GetSocketsFromConfig_null_outputs:
  "m' = GetSocketsFromConfig GetInt config socket socket_ssl socket_ssl_test m \<longrightarrow>
     lookups m' =
       lookups m @ (if socket \<noteq> 0 then [''server.socket''] else []) @
         (if socket_ssl \<noteq> 0 then [''server.socket_ssl''] else []) @
         (if socket_ssl_test \<noteq> 0 then [''server.socket_ssl_test''] else []) \<and>
     (''server.socket'' \<in> set (drop (length (lookups m)) (lookups m')) \<longleftrightarrow> socket \<noteq> 0) \<and>
     (''server.socket_ssl'' \<in> set (drop (length (lookups m)) (lookups m')) \<longleftrightarrow> socket_ssl \<noteq> 0) \<and>
     (''server.socket_ssl_test'' \<in> set (drop (length (lookups m)) (lookups m')) \<longleftrightarrow> socket_ssl_test \<noteq> 0) \<and>
     stored_since m m' =
       (if socket \<noteq> 0 then [(socket, GetInt config ''server.socket'' (- 1))] else []) @
       (if socket_ssl \<noteq> 0 then [(socket_ssl, GetInt config ''server.socket_ssl'' (- 1))] else []) @
       (if socket_ssl_test \<noteq> 0
        then [(socket_ssl_test, GetInt config ''server.socket_ssl_test'' (- 1))] else []) \<and>
     (\<forall>a. a = 0 \<or> (a \<noteq> socket \<and> a \<noteq> socket_ssl \<and> a \<noteq> socket_ssl_test) \<longrightarrow> ints m' a = ints m a) \<and>
     (separate_outputs [socket, socket_ssl, socket_ssl_test] \<longrightarrow>
        (socket \<noteq> 0 \<longrightarrow>
           ints m' socket = GetInt config ''server.socket'' (- 1) \<and>
           ints m' socket = ints (GetSocketsFromConfig GetInt config socket 0 0 m) socket) \<and>
        (socket_ssl \<noteq> 0 \<longrightarrow>
           ints m' socket_ssl = GetInt config ''server.socket_ssl'' (- 1) \<and>
           ints m' socket_ssl = ints (GetSocketsFromConfig GetInt config 0 socket_ssl 0 m) socket_ssl) \<and>
        (socket_ssl_test \<noteq> 0 \<longrightarrow>
           ints m' socket_ssl_test = GetInt config ''server.socket_ssl_test'' (- 1) \<and>
           ints m' socket_ssl_test =
             ints (GetSocketsFromConfig GetInt config 0 0 socket_ssl_test m) socket_ssl_test))"
proof (intro impI, intro conjI)
  assume m': "m' = GetSocketsFromConfig GetInt config socket socket_ssl socket_ssl_test m"
  show looked: "lookups m' =
       lookups m @ (if socket \<noteq> 0 then [''server.socket''] else []) @
         (if socket_ssl \<noteq> 0 then [''server.socket_ssl''] else []) @
         (if socket_ssl_test \<noteq> 0 then [''server.socket_ssl_test''] else [])"
    by (simp add: m' GetSocketsFromConfig_def store_GetInt_def Let_def)
  show "''server.socket'' \<in> set (drop (length (lookups m)) (lookups m')) \<longleftrightarrow> socket \<noteq> 0"
    "''server.socket_ssl'' \<in> set (drop (length (lookups m)) (lookups m')) \<longleftrightarrow> socket_ssl \<noteq> 0"
    "''server.socket_ssl_test'' \<in> set (drop (length (lookups m)) (lookups m')) \<longleftrightarrow> socket_ssl_test \<noteq> 0"
    by (simp_all add: looked)
  show "stored_since m m' =
       (if socket \<noteq> 0 then [(socket, GetInt config ''server.socket'' (- 1))] else []) @
       (if socket_ssl \<noteq> 0 then [(socket_ssl, GetInt config ''server.socket_ssl'' (- 1))] else []) @
       (if socket_ssl_test \<noteq> 0
        then [(socket_ssl_test, GetInt config ''server.socket_ssl_test'' (- 1))] else [])"
    by (simp add: m' stored_since_def GetSocketsFromConfig_def store_GetInt_def Let_def)
  show "\<forall>a. a = 0 \<or> (a \<noteq> socket \<and> a \<noteq> socket_ssl \<and> a \<noteq> socket_ssl_test) \<longrightarrow> ints m' a = ints m a"
    by (auto simp: m' GetSocketsFromConfig_def store_GetInt_def Let_def)
  show "separate_outputs [socket, socket_ssl, socket_ssl_test] \<longrightarrow>
        (socket \<noteq> 0 \<longrightarrow>
           ints m' socket = GetInt config ''server.socket'' (- 1) \<and>
           ints m' socket = ints (GetSocketsFromConfig GetInt config socket 0 0 m) socket) \<and>
        (socket_ssl \<noteq> 0 \<longrightarrow>
           ints m' socket_ssl = GetInt config ''server.socket_ssl'' (- 1) \<and>
           ints m' socket_ssl = ints (GetSocketsFromConfig GetInt config 0 socket_ssl 0 m) socket_ssl) \<and>
        (socket_ssl_test \<noteq> 0 \<longrightarrow>
           ints m' socket_ssl_test = GetInt config ''server.socket_ssl_test'' (- 1) \<and>
           ints m' socket_ssl_test =
             ints (GetSocketsFromConfig GetInt config 0 0 socket_ssl_test m) socket_ssl_test)"
    by (auto simp: m' GetSocketsFromConfig_def store_GetInt_def Let_def separate_outputs_def
        split: if_splits)
qed

theorem GetSocketsFromConfig_null_outputs_witness:
  "lookups (GetSocketsFromConfig dmConfigFile_GetInt example_config 100 0 108 example_memory) =
     [''server.socket'', ''server.socket_ssl_test''] \<and>
   stored_since example_memory
     (GetSocketsFromConfig dmConfigFile_GetInt example_config 100 0 108 example_memory) =
     [(100, 8001), (108, - 1)] \<and>
   ints (GetSocketsFromConfig dmConfigFile_GetInt example_config 100 0 108 example_memory) 100 = 8001 \<and>
   ints (GetSocketsFromConfig dmConfigFile_GetInt example_config 100 0 108 example_memory) 108 = - 1 \<and>
   ints (GetSocketsFromConfig dmConfigFile_GetInt example_config 100 0 108 example_memory) 104 = 0 \<and>
   ints (GetSocketsFromConfig dmConfigFile_GetInt example_config 100 0 108 example_memory) 0 = 0 \<and>
   lookups (GetSocketsFromConfig dmConfigFile_GetInt example_config 100 104 108 example_memory) =
     [''server.socket'', ''server.socket_ssl'', ''server.socket_ssl_test''] \<and>
   ints (GetSocketsFromConfig dmConfigFile_GetInt example_config 100 104 108 example_memory) 104 = 8002 \<and>
   ints (GetSocketsFromConfig dmConfigFile_GetInt example_config 100 104 108 example_memory) 100 =
     ints (GetSocketsFromConfig dmConfigFile_GetInt example_config 100 0 0 example_memory) 100"
proof -
  have sep: "separate_outputs [100, 0, 108]" "separate_outputs [100, 104, 108]"
    by (simp_all add: separate_outputs_def)
  have vals: "dmConfigFile_GetInt example_config ''server.socket'' (- 1) = 8001"
    "dmConfigFile_GetInt example_config ''server.socket_ssl'' (- 1) = 8002"
    "dmConfigFile_GetInt example_config ''server.socket_ssl_test'' (- 1) = - 1"
    by (simp_all add: dmConfigFile_GetInt_def example_config_def)
  note c9 = GetSocketsFromConfig_null_outputs
    [of "GetSocketsFromConfig dmConfigFile_GetInt example_config 100 0 108 example_memory"
        dmConfigFile_GetInt example_config 100 0 108 example_memory]
  note c9' = GetSocketsFromConfig_null_outputs
    [of "GetSocketsFromConfig dmConfigFile_GetInt example_config 100 104 108 example_memory"
        dmConfigFile_GetInt example_config 100 104 108 example_memory]
  from c9 have "lookups (GetSocketsFromConfig dmConfigFile_GetInt example_config 100 0 108 example_memory) =
     [''server.socket'', ''server.socket_ssl_test'']"
    by (simp add: example_memory_def)
  moreover from c9
  have "stored_since example_memory
     (GetSocketsFromConfig dmConfigFile_GetInt example_config 100 0 108 example_memory) =
     [(100, 8001), (108, - 1)]"
    by (simp add: vals)
  moreover from c9 sep
  have "ints (GetSocketsFromConfig dmConfigFile_GetInt example_config 100 0 108 example_memory) 100 = 8001"
    "ints (GetSocketsFromConfig dmConfigFile_GetInt example_config 100 0 108 example_memory) 108 = - 1"
    by (simp_all add: vals)
  moreover from c9
  have "ints (GetSocketsFromConfig dmConfigFile_GetInt example_config 100 0 108 example_memory) 104 = 0"
    "ints (GetSocketsFromConfig dmConfigFile_GetInt example_config 100 0 108 example_memory) 0 = 0"
    by (simp_all add: example_memory_def)
  moreover from c9'
  have "lookups (GetSocketsFromConfig dmConfigFile_GetInt example_config 100 104 108 example_memory) =
     [''server.socket'', ''server.socket_ssl'', ''server.socket_ssl_test'']"
    by (simp add: example_memory_def)
  moreover from c9' sep
  have "ints (GetSocketsFromConfig dmConfigFile_GetInt example_config 100 104 108 example_memory) 104 = 8002"
    "ints (GetSocketsFromConfig dmConfigFile_GetInt example_config 100 104 108 example_memory) 100 =
     ints (GetSocketsFromConfig dmConfigFile_GetInt example_config 100 0 0 example_memory) 100"
    by (simp_all add: vals)
  ultimately show ?thesis by simp
qed

end
